theory Spec2Isabelle
  imports Main
begin

section \<open>Run Store and Durable Log as explicit state\<close>

text \<open>
  The control plane and the worker of \<^verbatim>\<open>internal/aor/control_plane.go\<close> talk to two
  external systems: a relational store (\<^verbatim>\<open>cp.db\<close>, \<^verbatim>\<open>w.db\<close>) and a JetStream log
  (\<^verbatim>\<open>cp.js\<close>, \<^verbatim>\<open>w.js\<close>). Both are modelled as explicit state. A table keyed by its
  \<^verbatim>\<open>id\<close> column is a map from ids to rows; a subject of the log is the list of the
  messages published so far. A call that can fail in Go (\<^verbatim>\<open>ExecContext\<close>,
  \<^verbatim>\<open>RowsAffected\<close>, \<^verbatim>\<open>Publish\<close>, \<^verbatim>\<open>json.Marshal\<close>) takes its outcome from an
  environment record: \<open>None\<close> is the nil error, \<open>Some e\<close> the error with message \<open>e\<close>.
  Theorems quantify over the environment, so they hold however the infrastructure behaves.
\<close>

type_synonym uuid = string

text \<open>Instants and durations are integers counting nanoseconds.\<close>

type_synonym time = int

type_synonym go_err = "string option"

datatype RunStatus = RunStatusQueued | RunStatusRunning | RunStatusSucceeded
  | RunStatusFailed | RunStatusCanceled

datatype StepStatus = StepStatusPending | StepStatusReady | StepStatusRunning
  | StepStatusSucceeded | StepStatusFailed | StepStatusCanceled

text \<open>
  Modelled from the spec: the row types of \<^verbatim>\<open>workflow_run\<close> and \<^verbatim>\<open>step_run\<close> (the Go
  structs \<^verbatim>\<open>WorkflowRun\<close> and \<^verbatim>\<open>StepRun\<close> are declared in a file that is not part of
  the sources at hand). The columns are those of the logical tables of the specification
  that the statements of this file read or write; a nullable column is an \<open>option\<close>.
\<close>

record workflow_run_row =
  wr_workflow_spec_id :: uuid
  wr_status :: RunStatus
  wr_cost_cents :: int

record step_run_row =
  sr_status :: StepStatus
  sr_attempt :: int
  sr_worker_id :: "string option"
  sr_lease_deadline :: "time option"
  sr_started_at :: "time option"
  sr_ended_at :: "time option"
  sr_error :: "string option"
  sr_cost_cents :: int
  sr_tokens_prompt :: int
  sr_tokens_completion :: int

text \<open>
  \<^verbatim>\<open>UPDATE t SET ... WHERE id = $k AND cond\<close> on a table whose key is \<^verbatim>\<open>id\<close>: the row
  with that key is rewritten when it exists and satisfies the condition. The second
  component is the number of rows affected.
\<close>

definition exec_update ::
  "('k \<rightharpoonup> 'r) \<Rightarrow> 'k \<Rightarrow> ('r \<Rightarrow> bool) \<Rightarrow> ('r \<Rightarrow> 'r) \<Rightarrow> ('k \<rightharpoonup> 'r) \<times> int" where
  "exec_update tbl k cond f =
     (case tbl k of
        None \<Rightarrow> (tbl, 0)
      | Some r \<Rightarrow> if cond r then (tbl(k \<mapsto> f r), 1) else (tbl, 0))"

section \<open>Control plane: CancelWorkflowRun\<close>

record cp_env =
  cancel_exec_err :: go_err
  cancel_rows_affected_err :: go_err
  cancel_publish_err :: go_err

record cp_world =
  workflow_run :: "uuid \<rightharpoonup> workflow_run_row"
  signals :: "(uuid \<times> string) list"
  cp_log :: "string list"

text \<open>
  \<^verbatim>\<open>
  func (cp *ControlPlane) CancelWorkflowRun(ctx context.Context, runID uuid.UUID) error {
      query := `UPDATE workflow_run SET status = 'canceled'
                WHERE id = $1 AND status IN ('queued', 'running')`
      result, err := cp.db.ExecContext(ctx, query, runID)
      if err != nil { return fmt.Errorf("failed to cancel workflow run: %w", err) }
      rowsAffected, err := result.RowsAffected()
      if err != nil { return fmt.Errorf("failed to get rows affected: %w", err) }
      if rowsAffected == 0 {
          return fmt.Errorf("workflow run not found or not in cancellable state")
      }
      cancelMsg := map[string]interface{}{"run_id": runID.String(), "action": "cancel"}
      msgData, _ := json.Marshal(cancelMsg)
      if _, err := cp.js.Publish("agentflow.signals", msgData); err != nil {
          log.Printf("Failed to send cancellation signal: %v", err)
      }
      return nil
  }
  \<close>
  In the model a statement whose \<^verbatim>\<open>ExecContext\<close> returns an error has changed nothing;
  the theorems say what the store holds after a failed statement only where the statement
  could not have changed it (a run that is not \<^verbatim>\<open>queued\<close> or \<^verbatim>\<open>running\<close>). A signal on
  \<^verbatim>\<open>agentflow.signals\<close> is the pair of its \<^verbatim>\<open>run_id\<close> and its \<^verbatim>\<open>action\<close>.
\<close>

definition cancellable_status :: "workflow_run_row \<Rightarrow> bool" where
  "cancellable_status r = (wr_status r = RunStatusQueued \<or> wr_status r = RunStatusRunning)"

definition CancelWorkflowRun :: "cp_env \<Rightarrow> cp_world \<Rightarrow> uuid \<Rightarrow> go_err \<times> cp_world" where
  "CancelWorkflowRun env w runID =
     (case cancel_exec_err env of
        Some e \<Rightarrow> (Some (''failed to cancel workflow run: '' @ e), w)
      | None \<Rightarrow>
          (case exec_update (workflow_run w) runID cancellable_status
                  (\<lambda>r. r\<lparr>wr_status := RunStatusCanceled\<rparr>) of
             (tbl, rowsAffected) \<Rightarrow>
               (case cancel_rows_affected_err env of
                  Some e \<Rightarrow>
                    (Some (''failed to get rows affected: '' @ e), w\<lparr>workflow_run := tbl\<rparr>)
                | None \<Rightarrow>
                    if rowsAffected = 0
                    then (Some ''workflow run not found or not in cancellable state'',
                          w\<lparr>workflow_run := tbl\<rparr>)
                    else
                      (case cancel_publish_err env of
                         Some e \<Rightarrow>
                           (None, w\<lparr>workflow_run := tbl,
                                    cp_log := cp_log w @
                                      [''Failed to send cancellation signal: '' @ e]\<rparr>)
                       | None \<Rightarrow>
                           (None, w\<lparr>workflow_run := tbl,
                                    signals := signals w @ [(runID, ''cancel'')]\<rparr>)))))"


definition terminal_run_status :: "RunStatus \<Rightarrow> bool" where
  "terminal_run_status s =
     (s = RunStatusSucceeded \<or> s = RunStatusFailed \<or> s = RunStatusCanceled)"

text \<open>Concrete stores and environments used to exercise the definitions.\<close>

definition env_ok :: cp_env where
  "env_ok = \<lparr>cancel_exec_err = None, cancel_rows_affected_err = None,
             cancel_publish_err = None\<rparr>"


definition env_publish_down :: cp_env where
  "env_publish_down = \<lparr>cancel_exec_err = None, cancel_rows_affected_err = None,
                       cancel_publish_err = Some ''nats: timeout''\<rparr>"

definition run_row :: "RunStatus \<Rightarrow> workflow_run_row" where
  "run_row s = \<lparr>wr_workflow_spec_id = ''spec-1'', wr_status = s, wr_cost_cents = 0\<rparr>"

definition world_with :: "RunStatus \<Rightarrow> cp_world" where
  "world_with s = \<lparr>workflow_run = [''run-1'' \<mapsto> run_row s], signals = [], cp_log = []\<rparr>"

section \<open>Worker: messages, tasks and results\<close>

text \<open>
  Modelled from the spec: the Go structs \<^verbatim>\<open>Task\<close>, \<^verbatim>\<open>TaskResult\<close> and the node with
  its policy are declared in a file that is not part of the sources at hand. The fields
  are the ones the worker reads (\<^verbatim>\<open>task.ID\<close>, \<^verbatim>\<open>task.Node.Type\<close>,
  \<^verbatim>\<open>task.Node.Policy.MaxRetries\<close>, \<^verbatim>\<open>task.DeadlineAt\<close>) and the ones it writes to
  the store (\<^verbatim>\<open>result.Status\<close>, \<^verbatim>\<open>result.Error\<close>, \<^verbatim>\<open>result.CostCents\<close>,
  \<^verbatim>\<open>result.TokensPrompt\<close>, \<^verbatim>\<open>result.TokensCompletion\<close>, \<^verbatim>\<open>result.TaskID\<close>).
  \<^verbatim>\<open>MaxRetries\<close> is a Go \<^verbatim>\<open>int\<close>: it can be negative.
\<close>

record policy =
  MaxRetries :: int

record node =
  Type :: string
  Policy :: policy

record task =
  ID :: uuid
  Node :: node
  DeadlineAt :: time

record task_result =
  TaskID :: uuid
  Status :: StepStatus
  Error :: string
  CostCents :: int
  TokensPrompt :: int
  TokensCompletion :: int

text \<open>
  A delivered message either fails \<^verbatim>\<open>json.Unmarshal(msg.Data, &task)\<close> or decodes to a
  task.
\<close>

datatype msg = Undecodable | Encoded task

subsection \<open>Contexts and durations\<close>

text \<open>
  A \<^verbatim>\<open>time.Duration\<close> is a signed 64-bit count of nanoseconds. \<^verbatim>\<open>Time.Sub\<close> saturates
  at the largest and smallest duration; multiplication of durations wraps around.
\<close>

definition Second :: int where
  "Second = 1000000000"

definition maxDuration :: int where
  "maxDuration = 2 ^ 63 - 1"

definition minDuration :: int where
  "minDuration = - (2 ^ 63)"

definition wrap64 :: "int \<Rightarrow> int" where
  "wrap64 x = (x + 2 ^ 63) mod 2 ^ 64 - 2 ^ 63"

definition Sub :: "time \<Rightarrow> time \<Rightarrow> int" where
  "Sub t u =
     (let d = t - u
      in if maxDuration < d then maxDuration else if d < minDuration then minDuration else d)"

text \<open>\<^verbatim>\<open>time.Until(t)\<close> is \<^verbatim>\<open>t.Sub(time.Now())\<close>.\<close>

definition Until :: "time \<Rightarrow> time \<Rightarrow> int" where
  "Until now t = Sub t now"

datatype ctx_error = DeadlineExceeded | Canceled

record go_context =
  deadline :: time

text \<open>
  \<^verbatim>\<open>context.WithTimeout(context.Background(), d)\<close> is
  \<^verbatim>\<open>WithDeadline(parent, time.Now().Add(d))\<close>.
\<close>

definition WithTimeout :: "time \<Rightarrow> int \<Rightarrow> go_context" where
  "WithTimeout now timeout = \<lparr>deadline = now + timeout\<rparr>"

subsection \<open>Executors, environment and observable events\<close>

text \<open>
  An executor is a black box. \<^verbatim>\<open>Execute(ctx, task)\<close> returns a result (possibly nil)
  with a nil error, or an error; since an executor may keep state, the outcome also
  depends on how many calls came before: the third argument is the number of the call.
\<close>

datatype exec_outcome = Returned "task_result option" | Failed string

type_synonym executor = "go_context \<Rightarrow> task \<Rightarrow> int \<Rightarrow> exec_outcome"

record Worker =
  w_id :: string
  executors :: "string \<rightharpoonup> executor"

text \<open>
  What the worker reads from its surroundings while it handles one message: the clock at
  each \<^verbatim>\<open>time.Now()\<close>, the error of each call into the store and the log, and, for
  every \<^verbatim>\<open>select\<close> between \<^verbatim>\<open>ctx.Done()\<close> and \<^verbatim>\<open>time.After(backoff)\<close>, which of the
  two came first (given the context, the attempt and the duration): \<open>None\<close> when the
  timer fired, \<open>Some e\<close> when the context was done first with \<^verbatim>\<open>ctx.Err() = e\<close>.
\<close>

record worker_env =
  now_until :: time
  now_timeout :: time
  now_started :: time
  now_ended :: time
  status_exec_err :: go_err
  result_exec_err :: go_err
  marshal_err :: go_err
  publish_err :: go_err
  ctx_done_first :: "go_context \<Rightarrow> int \<Rightarrow> int \<Rightarrow> ctx_error option"

record worker_world =
  step_run :: "uuid \<rightharpoonup> step_run_row"
  results :: "task_result list"

text \<open>
  The trace of one delivery: the calls of \<^verbatim>\<open>updateStepStatus\<close>,
  \<^verbatim>\<open>updateStepWithResult\<close> and \<^verbatim>\<open>publishResult\<close> with the error each returned, the
  calls of \<^verbatim>\<open>Execute\<close> with the attempt number, the backoffs that ran to their end
  (\<open>Sleep\<close>) or were cut short by the context (\<open>Interrupted\<close>), and \<^verbatim>\<open>msg.Ack()\<close>,
  \<^verbatim>\<open>msg.Nak()\<close>; \<open>Panic\<close> is a nil dereference.
\<close>

datatype event =
    UpdateStatus uuid go_err
  | Execute int
  | Sleep int int
  | Interrupted int int ctx_error
  | UpdateResult task_result go_err
  | PublishResult task_result go_err
  | Ack
  | Nak
  | Panic

subsection \<open>Errors of executeTask and their messages\<close>

datatype task_error =
    NoExecutor string
  | ContextDone ctx_error
  | AttemptsExhausted int go_err

definition digit_char :: "nat \<Rightarrow> char" where
  "digit_char n = ''0123456789'' ! n"

fun show_nat :: "nat \<Rightarrow> string" where
  "show_nat n = (if n < 10 then [digit_char n] else show_nat (n div 10) @ [digit_char (n mod 10)])"

declare show_nat.simps [simp del]

definition show_int :: "int \<Rightarrow> string" where
  "show_int i = (if i < 0 then CHR ''-'' # show_nat (nat (- i)) else show_nat (nat i))"

text \<open>
  \<^verbatim>\<open>err.Error()\<close> for the three errors of \<^verbatim>\<open>executeTask\<close>:
  \<^verbatim>\<open>fmt.Errorf("no executor for node type %s", task.Node.Type)\<close>, \<^verbatim>\<open>ctx.Err()\<close>, and
  \<^verbatim>\<open>fmt.Errorf("task failed after %d attempts: %w", maxRetries, lastErr)\<close>, where a nil
  \<^verbatim>\<open>lastErr\<close> prints as \<^verbatim>\<open>%!w(<nil>)\<close>.
\<close>

fun Error_string :: "task_error \<Rightarrow> string" where
  "Error_string (NoExecutor ty) = ''no executor for node type '' @ ty"
| "Error_string (ContextDone DeadlineExceeded) = ''context deadline exceeded''"
| "Error_string (ContextDone Canceled) = ''context canceled''"
| "Error_string (AttemptsExhausted n None) =
     ''task failed after '' @ show_int n @ '' attempts: %!w(<nil>)''"
| "Error_string (AttemptsExhausted n (Some e)) =
     ''task failed after '' @ show_int n @ '' attempts: '' @ e"

section \<open>Worker: executeTask\<close>

text \<open>
  \<^verbatim>\<open>
  func (w *Worker) executeTask(ctx context.Context, task *Task) (*TaskResult, error) {
      executor, exists := w.executors[task.Node.Type]
      if !exists {
          return nil, fmt.Errorf("no executor for node type %s", task.Node.Type)
      }
      maxRetries := task.Node.Policy.MaxRetries
      if maxRetries == 0 { maxRetries = 3 }
      var lastErr error
      for attempt := 1; attempt <= maxRetries; attempt++ {
          result, err := executor.Execute(ctx, task)
          if err == nil { return result, nil }
          lastErr = err
          if attempt < maxRetries {
              backoff := time.Duration(attempt*attempt) * time.Second
              select {
              case <-ctx.Done(): return nil, ctx.Err()
              case <-time.After(backoff): continue
              }
          }
      }
      return nil, fmt.Errorf("task failed after %d attempts: %w", maxRetries, lastErr)
  }
  \<close>
  \<^verbatim>\<open>attempt*attempt\<close> is a product of 64-bit integers and the product with
  \<^verbatim>\<open>time.Second\<close> a product of durations: both wrap around. The loop counter and
  \<^verbatim>\<open>maxRetries\<close> are integers (the counter of the model is unbounded; it is the
  64-bit counter of the code as long as \<^verbatim>\<open>maxRetries\<close> is below the largest 64-bit
  integer); the loop is a recursion on the counter, returning the result together with
  the events in the order they happened.
\<close>

definition backoff :: "int \<Rightarrow> int" where
  "backoff attempt = wrap64 (wrap64 (attempt * attempt) * Second)"

function retry_loop ::
  "worker_env \<Rightarrow> executor \<Rightarrow> go_context \<Rightarrow> task \<Rightarrow> int \<Rightarrow> int \<Rightarrow> go_err
     \<Rightarrow> (task_error + task_result option) \<times> event list" where
  "retry_loop env ex ctx t maxRetries attempt lastErr =
     (if attempt \<le> maxRetries then
        (case ex ctx t attempt of
           Returned result \<Rightarrow> (Inr result, [Execute attempt])
         | Failed err \<Rightarrow>
             if attempt < maxRetries then
               (case ctx_done_first env ctx attempt (backoff attempt) of
                  Some ce \<Rightarrow>
                    (Inl (ContextDone ce),
                     [Execute attempt, Interrupted attempt (backoff attempt) ce])
                | None \<Rightarrow>
                    apsnd (\<lambda>tr. Execute attempt # Sleep attempt (backoff attempt) # tr)
                      (retry_loop env ex ctx t maxRetries (attempt + 1) (Some err)))
             else
               apsnd (\<lambda>tr. Execute attempt # tr)
                 (retry_loop env ex ctx t maxRetries (attempt + 1) (Some err)))
      else (Inl (AttemptsExhausted maxRetries lastErr), []))"
  by pat_completeness auto
termination
  by (relation "measure (\<lambda>(env, ex, ctx, t, maxRetries, attempt, lastErr).
        nat (maxRetries + 1 - attempt))") auto

declare retry_loop.simps [simp del]

definition effective_max_retries :: "task \<Rightarrow> int" where
  "effective_max_retries t =
     (if MaxRetries (Policy (Node t)) = 0 then 3 else MaxRetries (Policy (Node t)))"

definition executeTask ::
  "Worker \<Rightarrow> worker_env \<Rightarrow> go_context \<Rightarrow> task
     \<Rightarrow> (task_error + task_result option) \<times> event list" where
  "executeTask w env ctx t =
     (case executors w (Type (Node t)) of
        None \<Rightarrow> (Inl (NoExecutor (Type (Node t))), [])
      | Some ex \<Rightarrow> retry_loop env ex ctx t (effective_max_retries t) 1 None)"

section \<open>Worker: the statements on step\_run and the publish\<close>

text \<open>
  \<^verbatim>\<open>
  func (w *Worker) updateStepStatus(ctx, stepID uuid.UUID, status StepStatus,
                                    workerID string) error {
      var startedAt *time.Time
      if status == StepStatusRunning { now := time.Now(); startedAt = &now }
      query := `UPDATE step_run SET status = $1, worker_id = $2, started_at = $3
                WHERE id = $4`
      _, err := w.db.ExecContext(ctx, query, status, workerID, startedAt, stepID)
      return err
  }
  \<close>
\<close>

definition updateStepStatus ::
  "go_err \<Rightarrow> time \<Rightarrow> (uuid \<rightharpoonup> step_run_row) \<Rightarrow> uuid \<Rightarrow> StepStatus \<Rightarrow> string
     \<Rightarrow> go_err \<times> (uuid \<rightharpoonup> step_run_row)" where
  "updateStepStatus exec_err now tbl stepID st workerID =
     (let startedAt = (if st = StepStatusRunning then Some now else None)
      in case exec_err of
           Some e \<Rightarrow> (Some e, tbl)
         | None \<Rightarrow>
             (None, fst (exec_update tbl stepID (\<lambda>r. True)
                (\<lambda>r. r\<lparr>sr_status := st, sr_worker_id := Some workerID,
                        sr_started_at := startedAt\<rparr>))))"

text \<open>
  \<^verbatim>\<open>
  func (w *Worker) updateStepWithResult(ctx, result *TaskResult) error {
      now := time.Now()
      query := `UPDATE step_run SET status = $1, ended_at = $2, error = $3,
                cost_cents = $4, tokens_prompt = $5, tokens_completion = $6
                WHERE id = $7`
      _, err := w.db.ExecContext(ctx, query, result.Status, now, result.Error,
          result.CostCents, result.TokensPrompt, result.TokensCompletion, result.TaskID)
      return err
  }
  \<close>
\<close>

definition updateStepWithResult ::
  "go_err \<Rightarrow> time \<Rightarrow> (uuid \<rightharpoonup> step_run_row) \<Rightarrow> task_result
     \<Rightarrow> go_err \<times> (uuid \<rightharpoonup> step_run_row)" where
  "updateStepWithResult exec_err now tbl result =
     (case exec_err of
        Some e \<Rightarrow> (Some e, tbl)
      | None \<Rightarrow>
          (None, fst (exec_update tbl (TaskID result) (\<lambda>r. True)
             (\<lambda>r. r\<lparr>sr_status := Status result, sr_ended_at := Some now,
                     sr_error := Some (Error result), sr_cost_cents := CostCents result,
                     sr_tokens_prompt := TokensPrompt result,
                     sr_tokens_completion := TokensCompletion result\<rparr>))))"

text \<open>
  \<^verbatim>\<open>
  func (w *Worker) publishResult(ctx, result *TaskResult) error {
      resultData, err := json.Marshal(result)
      if err != nil { return fmt.Errorf("failed to marshal result: %w", err) }
      _, err = w.js.Publish("agentflow.results", resultData)
      return err
  }
  \<close>
\<close>

definition publishResult ::
  "worker_env \<Rightarrow> task_result list \<Rightarrow> task_result \<Rightarrow> go_err \<times> task_result list" where
  "publishResult env published result =
     (case marshal_err env of
        Some e \<Rightarrow> (Some (''failed to marshal result: '' @ e), published)
      | None \<Rightarrow>
          (case publish_err env of
             Some e \<Rightarrow> (Some e, published)
           | None \<Rightarrow> (None, published @ [result])))"

section \<open>Worker: handleTask\<close>

text \<open>
  \<^verbatim>\<open>
  func (w *Worker) handleTask(msg *nats.Msg) {
      var task Task
      if err := json.Unmarshal(msg.Data, &task); err != nil { msg.Nak(); return }
      ctx, cancel := context.WithTimeout(context.Background(), time.Until(task.DeadlineAt))
      defer cancel()
      if err := w.updateStepStatus(ctx, task.ID, StepStatusRunning, w.id); err != nil {
          msg.Nak(); return
      }
      result, err := w.executeTask(ctx, &task)
      if err != nil {
          result = &TaskResult{TaskID: task.ID, Status: StepStatusFailed, Error: err.Error()}
      }
      if err := w.updateStepWithResult(ctx, result); err != nil { msg.Nak(); return }
      if err := w.publishResult(ctx, result); err != nil { msg.Nak(); return }
      msg.Ack()
  }
  \<close>
  (the \<^verbatim>\<open>log.Printf\<close> calls of the worker are left out). An executor that returns a nil
  result with a nil error makes \<^verbatim>\<open>updateStepWithResult\<close> dereference nil before it
  reaches the store.
\<close>

definition task_context :: "worker_env \<Rightarrow> task \<Rightarrow> go_context" where
  "task_context env t = WithTimeout (now_timeout env) (Until (now_until env) (DeadlineAt t))"

definition failed_result :: "task \<Rightarrow> task_error \<Rightarrow> task_result" where
  "failed_result t err =
     \<lparr>TaskID = ID t, Status = StepStatusFailed, Error = Error_string err,
      CostCents = 0, TokensPrompt = 0, TokensCompletion = 0\<rparr>"

definition finish_task ::
  "worker_env \<Rightarrow> worker_world \<Rightarrow> (uuid \<rightharpoonup> step_run_row) \<Rightarrow> task_result
     \<Rightarrow> worker_world \<times> event list" where
  "finish_task env s tbl result =
     (case updateStepWithResult (result_exec_err env) (now_ended env) tbl result of
        (Some e, tbl') \<Rightarrow> (s\<lparr>step_run := tbl'\<rparr>, [UpdateResult result (Some e), Nak])
      | (None, tbl') \<Rightarrow>
          (case publishResult env (results s) result of
             (Some e, published) \<Rightarrow>
               (s\<lparr>step_run := tbl', results := published\<rparr>,
                [UpdateResult result None, PublishResult result (Some e), Nak])
           | (None, published) \<Rightarrow>
               (s\<lparr>step_run := tbl', results := published\<rparr>,
                [UpdateResult result None, PublishResult result None, Ack])))"

definition handleTask ::
  "Worker \<Rightarrow> worker_env \<Rightarrow> worker_world \<Rightarrow> msg \<Rightarrow> worker_world \<times> event list" where
  "handleTask w env s m =
     (case m of
        Undecodable \<Rightarrow> (s, [Nak])
      | Encoded t \<Rightarrow>
          (let ctx = task_context env t
           in case updateStepStatus (status_exec_err env) (now_started env) (step_run s)
                     (ID t) StepStatusRunning (w_id w) of
                (Some e, tbl) \<Rightarrow> (s\<lparr>step_run := tbl\<rparr>, [UpdateStatus (ID t) (Some e), Nak])
              | (None, tbl) \<Rightarrow>
                  (case executeTask w env ctx t of
                     (res, tr) \<Rightarrow>
                       (case (case res of Inl err \<Rightarrow> Some (failed_result t err)
                                        | Inr result \<Rightarrow> result) of
                          None \<Rightarrow>
                            (s\<lparr>step_run := tbl\<rparr>, UpdateStatus (ID t) None # tr @ [Panic])
                        | Some result \<Rightarrow>
                            apsnd (\<lambda>fin. UpdateStatus (ID t) None # tr @ fin)
                              (finish_task env s tbl result)))))"

section \<open>Vocabulary of the theorems\<close>

text \<open>
  The events of attempts \<open>a\<close> to \<open>n - 1\<close> when each of them failed and was followed by
  its whole backoff.
\<close>

definition attempts_prefix :: "int \<Rightarrow> int \<Rightarrow> event list" where
  "attempts_prefix a n = concat (map (\<lambda>k. [Execute k, Sleep k (backoff k)]) [a..n - 1])"

text \<open>
  Attempt \<open>k\<close> neither ends the loop nor is cut short: \<^verbatim>\<open>Execute\<close> returned an error and
  the timer of the backoff fired before the context was done.
\<close>

definition quiet :: "worker_env \<Rightarrow> executor \<Rightarrow> go_context \<Rightarrow> task \<Rightarrow> int \<Rightarrow> bool" where
  "quiet env ex ctx t k =
     ((case ex ctx t k of Failed e \<Rightarrow> True | Returned r \<Rightarrow> False)
      \<and> ctx_done_first env ctx k (backoff k) = None)"

text \<open>The events that \<^verbatim>\<open>executeTask\<close> can produce.\<close>

definition attempt_event :: "event \<Rightarrow> bool" where
  "attempt_event ev =
     (case ev of Execute k \<Rightarrow> True | Sleep k d \<Rightarrow> True | Interrupted k d e \<Rightarrow> True
      | _ \<Rightarrow> False)"

text \<open>
  The result that \<^verbatim>\<open>handleTask\<close> builds from the error of a dispatch that found no
  executor.
\<close>

definition no_executor_result :: "task \<Rightarrow> task_result" where
  "no_executor_result t =
     \<lparr>TaskID = ID t, Status = StepStatusFailed,
      Error = ''no executor for node type '' @ Type (Node t),
      CostCents = 0, TokensPrompt = 0, TokensCompletion = 0\<rparr>"

text \<open>
  The deadline that the specification asks for: the earlier of the task's own deadline and
  the instant a configured maximum task duration after now.
\<close>

definition spec_task_deadline :: "time \<Rightarrow> time \<Rightarrow> int \<Rightarrow> time" where
  "spec_task_deadline deadline_at now configured_max = min deadline_at (now + configured_max)"

text \<open>
  The invariant the specification states for a row in \<^verbatim>\<open>running\<close>: a worker id, and a
  lease deadline later than \<^verbatim>\<open>started_at\<close>.
\<close>

definition running_lease_ok :: "step_run_row \<Rightarrow> bool" where
  "running_lease_ok r =
     (sr_status r = StepStatusRunning \<longrightarrow>
        sr_worker_id r \<noteq> None
        \<and> (case (sr_started_at r, sr_lease_deadline r) of
             (Some s, Some d) \<Rightarrow> s < d
           | _ \<Rightarrow> False))"

section \<open>Concrete workers, stores and environments\<close>

text \<open>
  A store with the single row \<^verbatim>\<open>step-1\<close>, a task for it whose deadline is 60 s after
  the epoch, an executor that fails twice and then succeeds, a worker that has it
  registered for \<^verbatim>\<open>Function\<close> nodes and one that has it for \<^verbatim>\<open>LLM\<close> nodes only, and
  environments in which everything works, in which the context is done during the second
  backoff, in which the store refuses the result write, and in which the log refuses the
  publish.
\<close>

definition ex_row :: "StepStatus \<Rightarrow> step_run_row" where
  "ex_row st = \<lparr>sr_status = st, sr_attempt = 1, sr_worker_id = None, sr_lease_deadline = None,
     sr_started_at = None, sr_ended_at = None, sr_error = None, sr_cost_cents = 0,
     sr_tokens_prompt = 0, sr_tokens_completion = 0\<rparr>"

definition wworld :: "StepStatus \<Rightarrow> worker_world" where
  "wworld st = \<lparr>step_run = [''step-1'' \<mapsto> ex_row st], results = []\<rparr>"

definition task1 :: "string \<Rightarrow> int \<Rightarrow> task" where
  "task1 ty n = \<lparr>ID = ''step-1'', Node = \<lparr>Type = ty, Policy = \<lparr>MaxRetries = n\<rparr>\<rparr>,
     DeadlineAt = 60000000000\<rparr>"

definition ok_result :: task_result where
  "ok_result = \<lparr>TaskID = ''step-1'', Status = StepStatusSucceeded, Error = [],
     CostCents = 7, TokensPrompt = 11, TokensCompletion = 13\<rparr>"

definition ex_flaky :: executor where
  "ex_flaky ctx t n = (if n < 3 then Failed ''boom'' else Returned (Some ok_result))"

definition worker1 :: Worker where
  "worker1 = \<lparr>w_id = ''worker-1'', executors = [''Function'' \<mapsto> ex_flaky]\<rparr>"

definition worker_llm_only :: Worker where
  "worker_llm_only = \<lparr>w_id = ''worker-2'', executors = [''LLM'' \<mapsto> ex_flaky]\<rparr>"

definition wenv_ok :: worker_env where
  "wenv_ok = \<lparr>now_until = 1000, now_timeout = 1000, now_started = 1001, now_ended = 1002,
     status_exec_err = None, result_exec_err = None, marshal_err = None, publish_err = None,
     ctx_done_first = (\<lambda>ctx attempt d. None)\<rparr>"

definition wenv_deadline :: worker_env where
  "wenv_deadline = wenv_ok\<lparr>ctx_done_first :=
     (\<lambda>ctx attempt d. if attempt = 2 then Some DeadlineExceeded else None)\<rparr>"

definition wenv_db_down :: worker_env where
  "wenv_db_down = wenv_ok\<lparr>result_exec_err := Some ''pq: connection refused''\<rparr>"

definition wenv_publish_down :: worker_env where
  "wenv_publish_down = wenv_ok\<lparr>publish_err := Some ''nats: timeout''\<rparr>"

section \<open>Facts about exec_update\<close>


lemma exec_update_reject:
  "tbl k = Some r \<Longrightarrow> \<not> cond r \<Longrightarrow> exec_update tbl k cond f = (tbl, 0)"
  by (simp add: exec_update_def)

lemma exec_update_hit:
  "tbl k = Some r \<Longrightarrow> cond r \<Longrightarrow> exec_update tbl k cond f = (tbl(k \<mapsto> f r), 1)"
  by (simp add: exec_update_def)


lemma cancel_update_cancellable:
  "workflow_run w runID = Some r \<Longrightarrow> cancellable_status r \<Longrightarrow>
   exec_update (workflow_run w) runID cancellable_status f
     = ((workflow_run w)(runID \<mapsto> f r), 1)"
  by (simp add: exec_update_hit)

section \<open>CancelWorkflowRun: errors and success\<close>







section \<open>CancelWorkflowRun on a run that is already terminal\<close>

text \<open>
  C8, as stated: cancelling a run that is already \<^verbatim>\<open>succeeded\<close>, \<^verbatim>\<open>failed\<close> or
  \<^verbatim>\<open>canceled\<close> reports no error. On the store holding the single run \<^verbatim>\<open>run-1\<close> in
  status \<^verbatim>\<open>succeeded\<close>, with every call of the infrastructure succeeding, the call
  returns the error of the \<^verbatim>\<open>rowsAffected == 0\<close> guard.
\<close>

theorem CancelWorkflowRun_terminal_counterexample:
  "workflow_run (world_with RunStatusSucceeded) ''run-1'' = Some (run_row RunStatusSucceeded)
   \<and> terminal_run_status (wr_status (run_row RunStatusSucceeded))
   \<and> fst (CancelWorkflowRun env_ok (world_with RunStatusSucceeded) ''run-1'')
       = Some ''workflow run not found or not in cancellable state''"
  by (simp add: CancelWorkflowRun_def exec_update_def cancellable_status_def
      terminal_run_status_def world_with_def run_row_def env_ok_def)

text \<open>
  C8, amended: cancelling a run that is already \<^verbatim>\<open>succeeded\<close>, \<^verbatim>\<open>failed\<close> or
  \<^verbatim>\<open>canceled\<close> changes nothing (no row is written, no signal is published, nothing is
  logged), and the call reports an error; when the statement itself ran and reported its
  row count, the error is \<^verbatim>\<open>workflow run not found or not in cancellable state\<close>.
\<close>

theorem CancelWorkflowRun_terminal_rejected:
  assumes "workflow_run w runID = Some r" and "terminal_run_status (wr_status r)"
  shows "fst (CancelWorkflowRun env w runID) \<noteq> None
         \<and> snd (CancelWorkflowRun env w runID) = w
         \<and> (cancel_exec_err env = None \<and> cancel_rows_affected_err env = None \<longrightarrow>
              fst (CancelWorkflowRun env w runID)
                = Some ''workflow run not found or not in cancellable state'')"
proof -
  from assms have n: "\<not> cancellable_status r"
    by (auto simp: terminal_run_status_def cancellable_status_def)
  with assms(1) have u:
    "exec_update (workflow_run w) runID cancellable_status
       (\<lambda>r. r\<lparr>wr_status := RunStatusCanceled\<rparr>) = (workflow_run w, 0)"
    by (rule exec_update_reject)
  show ?thesis
    by (simp add: CancelWorkflowRun_def u split: option.splits)
qed

theorem CancelWorkflowRun_terminal_rejected_witness:
  "workflow_run (world_with RunStatusCanceled) ''run-1'' = Some (run_row RunStatusCanceled)
   \<and> terminal_run_status (wr_status (run_row RunStatusCanceled))
   \<and> fst (CancelWorkflowRun env_ok (world_with RunStatusCanceled) ''run-1'')
       = Some ''workflow run not found or not in cancellable state''
   \<and> snd (CancelWorkflowRun env_ok (world_with RunStatusCanceled) ''run-1'')
       = world_with RunStatusCanceled"
proof -
  have r: "workflow_run (world_with RunStatusCanceled) ''run-1''
             = Some (run_row RunStatusCanceled)"
    by (simp add: world_with_def)
  have t: "terminal_run_status (wr_status (run_row RunStatusCanceled))"
    by (simp add: terminal_run_status_def run_row_def)
  have e: "cancel_exec_err env_ok = None \<and> cancel_rows_affected_err env_ok = None"
    by (simp add: env_ok_def)
  show ?thesis
    using CancelWorkflowRun_terminal_rejected [OF r t, of env_ok] r t e by simp
qed

section \<open>CancelWorkflowRun when the signal cannot be published\<close>

text \<open>
  C10. When the update moved the run to \<^verbatim>\<open>canceled\<close> and \<^verbatim>\<open>Publish\<close> on
  \<^verbatim>\<open>agentflow.signals\<close> then fails, \<^verbatim>\<open>CancelWorkflowRun\<close> still returns nil: the
  failure is only written to the log, the store holds the run as \<^verbatim>\<open>canceled\<close>, and
  no signal has been added to the subject.
\<close>

theorem CancelWorkflowRun_publish_failure_swallowed:
  assumes "workflow_run w runID = Some r" and "cancellable_status r"
    and "cancel_exec_err env = None" and "cancel_rows_affected_err env = None"
    and "cancel_publish_err env = Some e"
  shows "fst (CancelWorkflowRun env w runID) = None
         \<and> workflow_run (snd (CancelWorkflowRun env w runID)) runID
             = Some (r\<lparr>wr_status := RunStatusCanceled\<rparr>)
         \<and> signals (snd (CancelWorkflowRun env w runID)) = signals w
         \<and> cp_log (snd (CancelWorkflowRun env w runID))
             = cp_log w @ [''Failed to send cancellation signal: '' @ e]"
  using assms by (simp add: CancelWorkflowRun_def cancel_update_cancellable)

theorem CancelWorkflowRun_publish_failure_swallowed_witness:
  "fst (CancelWorkflowRun env_publish_down (world_with RunStatusRunning) ''run-1'') = None
   \<and> workflow_run (snd (CancelWorkflowRun env_publish_down (world_with RunStatusRunning)
         ''run-1'')) ''run-1'' = Some (run_row RunStatusCanceled)
   \<and> signals (snd (CancelWorkflowRun env_publish_down (world_with RunStatusRunning)
         ''run-1'')) = []
   \<and> cp_log (snd (CancelWorkflowRun env_publish_down (world_with RunStatusRunning)
         ''run-1'')) = [''Failed to send cancellation signal: nats: timeout'']"
proof -
  have r: "workflow_run (world_with RunStatusRunning) ''run-1''
             = Some (run_row RunStatusRunning)"
    by (simp add: world_with_def)
  have c: "cancellable_status (run_row RunStatusRunning)"
    by (simp add: cancellable_status_def run_row_def)
  have x: "cancel_exec_err env_publish_down = None"
    and a: "cancel_rows_affected_err env_publish_down = None"
    and p: "cancel_publish_err env_publish_down = Some ''nats: timeout''"
    by (simp_all add: env_publish_down_def)
  show ?thesis
    using CancelWorkflowRun_publish_failure_swallowed [OF r c x a p]
    by (simp add: world_with_def run_row_def)
qed

section \<open>Facts about the backoff and the retry loop\<close>

lemma wrap64_id: "- (2 ^ 63) \<le> x \<Longrightarrow> x < 2 ^ 63 \<Longrightarrow> wrap64 x = x"
  by (simp add: wrap64_def)

lemma backoff_quadratic:
  assumes "1 \<le> k" and "k \<le> 96038"
  shows "backoff k = k * k * Second"
proof -
  define x where "x = k * k"
  have "k * k \<le> 96038 * 96038"
    using assms by (intro mult_mono) simp_all
  then have b: "x \<le> 9223297444" by (simp add: x_def)
  have p: "0 \<le> x" by (simp add: x_def)
  have 1: "wrap64 x = x"
    using b p by (intro wrap64_id) simp_all
  have 2: "wrap64 (x * Second) = x * Second"
    using b p by (intro wrap64_id) (simp_all add: Second_def)
  show ?thesis by (simp add: backoff_def 1 2 flip: x_def)
qed

lemma retry_loop_events:
  "ev \<in> set (snd (retry_loop env ex ctx t m a lastErr)) \<Longrightarrow> attempt_event ev"
proof (induction env ex ctx t m a lastErr rule: retry_loop.induct)
  case (1 env ex ctx t maxRetries attempt lastErr)
  note eq = retry_loop.simps [of env ex ctx t maxRetries attempt lastErr]
  show ?case
  proof (cases "attempt \<le> maxRetries")
    case False
    with "1.prems" show ?thesis unfolding eq by simp
  next
    case le: True
    show ?thesis
    proof (cases "ex ctx t attempt")
      case (Returned r)
      with le "1.prems" show ?thesis unfolding eq by (simp add: attempt_event_def)
    next
      case (Failed e)
      show ?thesis
      proof (cases "attempt < maxRetries")
        case lt: True
        show ?thesis
        proof (cases "ctx_done_first env ctx attempt (backoff attempt)")
          case None
          from "1.prems" le lt Failed None have
            "ev = Execute attempt \<or> ev = Sleep attempt (backoff attempt)
             \<or> ev \<in> set (snd (retry_loop env ex ctx t maxRetries (attempt + 1) (Some e)))"
            unfolding eq by (auto simp: apsnd_def map_prod_def split: prod.splits)
          with "1.IH"(1) [OF le Failed lt None] show ?thesis
            by (auto simp: attempt_event_def)
        next
          case (Some ce)
          with le lt Failed "1.prems" show ?thesis
            unfolding eq by (auto simp: attempt_event_def)
        qed
      next
        case nlt: False
        from "1.prems" le nlt Failed have
          "ev = Execute attempt
           \<or> ev \<in> set (snd (retry_loop env ex ctx t maxRetries (attempt + 1) (Some e)))"
          unfolding eq by (auto simp: apsnd_def map_prod_def split: prod.splits)
        with "1.IH"(2) [OF le Failed nlt] show ?thesis
          by (auto simp: attempt_event_def)
      qed
    qed
  qed
qed

lemma apsnd_ident: "apsnd (\<lambda>x. x) p = p"
  by (cases p) simp

lemma attempts_prefix_empty: "attempts_prefix n n = []"
  by (simp add: attempts_prefix_def)

lemma attempts_prefix_step:
  "a < n \<Longrightarrow> attempts_prefix a n = Execute a # Sleep a (backoff a) # attempts_prefix (a + 1) n"
  by (simp add: attempts_prefix_def upto_rec1 [of a "n - 1"])

lemma retry_loop_quiet_step:
  assumes "a < m" and "quiet env ex ctx t a"
  shows "\<exists>e. retry_loop env ex ctx t m a lastErr
           = apsnd (\<lambda>tr. Execute a # Sleep a (backoff a) # tr)
               (retry_loop env ex ctx t m (a + 1) (Some e))"
  using assms
  by (cases "ex ctx t a") (auto simp: quiet_def retry_loop.simps [of _ _ _ _ m a])

lemma retry_loop_skip_quiet:
  assumes "a \<le> n" and "n \<le> m" and "\<forall>k. a \<le> k \<and> k < n \<longrightarrow> quiet env ex ctx t k"
  shows "\<exists>le. retry_loop env ex ctx t m a lastErr
            = apsnd (\<lambda>tr. attempts_prefix a n @ tr) (retry_loop env ex ctx t m n le)"
  using assms
proof (induction "nat (n - a)" arbitrary: a lastErr)
  case 0
  then have "a = n" by simp
  then show ?case
    by (intro exI [of _ lastErr]) (simp add: attempts_prefix_empty apsnd_ident)
next
  case (Suc d)
  then have lt: "a < n" by simp
  with Suc.prems have q: "quiet env ex ctx t a" and am: "a < m" by auto
  from retry_loop_quiet_step [OF am q, of lastErr] obtain e where
    st: "retry_loop env ex ctx t m a lastErr
           = apsnd (\<lambda>tr. Execute a # Sleep a (backoff a) # tr)
               (retry_loop env ex ctx t m (a + 1) (Some e))" ..
  have "d = nat (n - (a + 1))" using Suc.hyps(2) by simp
  from Suc.hyps(1) [OF this, of "Some e"] Suc.prems lt obtain le where
    ih: "retry_loop env ex ctx t m (a + 1) (Some e)
           = apsnd (\<lambda>tr. attempts_prefix (a + 1) n @ tr) (retry_loop env ex ctx t m n le)"
    by auto
  show ?case
    by (rule exI [of _ le]) (simp add: st ih attempts_prefix_step [OF lt] apsnd_def map_prod_def split: prod.splits)
qed

lemma retry_loop_returned:
  assumes "n \<le> m" and "ex ctx t n = Returned r"
  shows "retry_loop env ex ctx t m n le = (Inr r, [Execute n])"
  using assms by (simp add: retry_loop.simps [of _ _ _ _ m n])

lemma retry_loop_interrupted:
  assumes "n < m" and "ex ctx t n = Failed e"
    and "ctx_done_first env ctx n (backoff n) = Some ce"
  shows "retry_loop env ex ctx t m n le
           = (Inl (ContextDone ce), [Execute n, Interrupted n (backoff n) ce])"
  using assms by (simp add: retry_loop.simps [of _ _ _ _ m n])

lemma retry_loop_past_end:
  "m < a \<Longrightarrow> retry_loop env ex ctx t m a le = (Inl (AttemptsExhausted m le), [])"
  by (simp add: retry_loop.simps [of _ _ _ _ m a])

lemma retry_loop_last_failed:
  assumes "ex ctx t m = Failed e"
  shows "retry_loop env ex ctx t m m le = (Inl (AttemptsExhausted m (Some e)), [Execute m])"
  using assms
  by (simp add: retry_loop.simps [of _ _ _ _ m m] retry_loop_past_end)

lemma first_stopping_attempt:
  fixes Q :: "int \<Rightarrow> bool"
  assumes "1 \<le> m"
  shows "\<exists>n. 1 \<le> n \<and> n \<le> m \<and> (\<forall>k. 1 \<le> k \<and> k < n \<longrightarrow> Q k) \<and> (n = m \<or> \<not> Q n)"
  using assms
proof (induction m rule: int_ge_induct)
  case base
  show ?case by (rule exI [of _ 1]) auto
next
  case (step m)
  then obtain n where n: "1 \<le> n" "n \<le> m" "\<forall>k. 1 \<le> k \<and> k < n \<longrightarrow> Q k" "n = m \<or> \<not> Q n"
    by blast
  show ?case
  proof (cases "Q n")
    case False
    with n show ?thesis by (intro exI [of _ n]) auto
  next
    case True
    with n have nm: "n = m" by blast
    have "\<forall>k. 1 \<le> k \<and> k < m + 1 \<longrightarrow> Q k"
    proof (intro allI impI)
      fix k assume k: "1 \<le> k \<and> k < m + 1"
      show "Q k"
      proof (cases "k < m")
        case True
        with k n(3) nm show ?thesis by simp
      next
        case False
        with k have "k = m" by simp
        with \<open>Q n\<close> nm show ?thesis by simp
      qed
    qed
    with step.hyps show ?thesis by (intro exI [of _ "m + 1"]) auto
  qed
qed

section \<open>The retry loop of executeTask\<close>

text \<open>
  C5. With an executor registered for the node type, the loop runs attempts 1, 2, ... up
  to \<^verbatim>\<open>max_retries\<close>, which is the policy's value and 3 when that value is 0 (unset).
  Let attempt \<open>n\<close> be the first one that does not fail and sleep through its whole
  backoff (every attempt \<open>k < n\<close> failed and its backoff was not cut short). Then the
  attempts made are exactly 1 to \<open>n\<close>, each attempt \<open>k < n\<close> followed by a completed
  sleep of \<open>backoff k\<close>, and
  \<^item> if attempt \<open>n\<close> succeeds, its result is returned;
  \<^item> if attempt \<open>n\<close> fails, \<open>n < max_retries\<close> and the context is done before the
    backoff ends, the context's error is returned and no further attempt is made;
  \<^item> if attempt \<open>n = max_retries\<close> fails, the error "task failed after \<open>n\<close> attempts"
    wrapping the last error is returned, with no sleep after the last attempt.
  Such an \<open>n\<close> exists whenever \<^verbatim>\<open>max_retries\<close> is at least 1, so the three cases are
  all there is. \<open>backoff k\<close> is \<^verbatim>\<open>time.Duration(k*k) * time.Second\<close>, which is
  \<open>k\<^sup>2\<close> seconds for every attempt up to 96038 (the range in which the product fits a
  64-bit duration). A \<^verbatim>\<open>max_retries\<close> below 1 makes no attempt at all.
\<close>

theorem executeTask_retry_loop:
  assumes "executors w (Type (Node t)) = Some ex"
  shows
    "(MaxRetries (Policy (Node t)) = 0 \<longrightarrow> effective_max_retries t = 3)
     \<and> (MaxRetries (Policy (Node t)) \<noteq> 0 \<longrightarrow>
          effective_max_retries t = MaxRetries (Policy (Node t)))
     \<and> (effective_max_retries t < 1 \<longrightarrow>
          executeTask w env ctx t
            = (Inl (AttemptsExhausted (effective_max_retries t) None), []))
     \<and> (\<forall>n. 1 \<le> n \<and> n \<le> effective_max_retries t
              \<and> (\<forall>k. 1 \<le> k \<and> k < n \<longrightarrow> quiet env ex ctx t k) \<longrightarrow>
          (\<forall>r. ex ctx t n = Returned r \<longrightarrow>
             executeTask w env ctx t = (Inr r, attempts_prefix 1 n @ [Execute n]))
          \<and> (\<forall>e ce. ex ctx t n = Failed e \<and> n < effective_max_retries t
                  \<and> ctx_done_first env ctx n (backoff n) = Some ce \<longrightarrow>
               executeTask w env ctx t
                 = (Inl (ContextDone ce),
                    attempts_prefix 1 n @ [Execute n, Interrupted n (backoff n) ce]))
          \<and> (\<forall>e. ex ctx t n = Failed e \<and> n = effective_max_retries t \<longrightarrow>
               executeTask w env ctx t
                 = (Inl (AttemptsExhausted n (Some e)), attempts_prefix 1 n @ [Execute n])))
     \<and> (1 \<le> effective_max_retries t \<longrightarrow>
          (\<exists>n. 1 \<le> n \<and> n \<le> effective_max_retries t
             \<and> (\<forall>k. 1 \<le> k \<and> k < n \<longrightarrow> quiet env ex ctx t k)
             \<and> (n = effective_max_retries t \<or> \<not> quiet env ex ctx t n)))
     \<and> (\<forall>k. 1 \<le> k \<and> k \<le> 96038 \<longrightarrow> backoff k = k * k * Second)"
proof -
  define m where "m = effective_max_retries t"
  have run: "executeTask w env ctx t = retry_loop env ex ctx t m 1 None"
    using assms by (simp add: executeTask_def m_def)
  have none: "m < 1 \<Longrightarrow> executeTask w env ctx t = (Inl (AttemptsExhausted m None), [])"
    by (simp add: run retry_loop_past_end)
  have some:
    "(\<forall>r. ex ctx t n = Returned r \<longrightarrow>
         executeTask w env ctx t = (Inr r, attempts_prefix 1 n @ [Execute n]))
     \<and> (\<forall>e ce. ex ctx t n = Failed e \<and> n < m
              \<and> ctx_done_first env ctx n (backoff n) = Some ce \<longrightarrow>
           executeTask w env ctx t
             = (Inl (ContextDone ce),
                attempts_prefix 1 n @ [Execute n, Interrupted n (backoff n) ce]))
     \<and> (\<forall>e. ex ctx t n = Failed e \<and> n = m \<longrightarrow>
           executeTask w env ctx t
             = (Inl (AttemptsExhausted n (Some e)), attempts_prefix 1 n @ [Execute n]))"
    if n: "1 \<le> n" "n \<le> m" and q: "\<forall>k. 1 \<le> k \<and> k < n \<longrightarrow> quiet env ex ctx t k" for n
  proof -
    from retry_loop_skip_quiet [OF n q, of None] obtain le where
      skip: "retry_loop env ex ctx t m 1 None
               = apsnd (\<lambda>tr. attempts_prefix 1 n @ tr) (retry_loop env ex ctx t m n le)" ..
    show ?thesis
    proof (intro conjI allI impI)
      fix r assume "ex ctx t n = Returned r"
      then show "executeTask w env ctx t = (Inr r, attempts_prefix 1 n @ [Execute n])"
        by (simp add: run skip retry_loop_returned [OF n(2)])
    next
      fix e ce
      assume "ex ctx t n = Failed e \<and> n < m
              \<and> ctx_done_first env ctx n (backoff n) = Some ce"
      then show "executeTask w env ctx t
             = (Inl (ContextDone ce),
                attempts_prefix 1 n @ [Execute n, Interrupted n (backoff n) ce])"
        by (simp add: run skip retry_loop_interrupted)
    next
      fix e assume "ex ctx t n = Failed e \<and> n = m"
      then have f: "ex ctx t m = Failed e" and nm: "n = m" by auto
      from skip have "retry_loop env ex ctx t m 1 None
               = apsnd (\<lambda>tr. attempts_prefix 1 m @ tr) (retry_loop env ex ctx t m m le)"
        by (simp add: nm)
      then show "executeTask w env ctx t
             = (Inl (AttemptsExhausted n (Some e)), attempts_prefix 1 n @ [Execute n])"
        using retry_loop_last_failed [of ex ctx t m e env le] f by (simp add: run nm)
    qed
  qed
  show ?thesis
    unfolding m_def [symmetric]
  proof (intro conjI)
    show "MaxRetries (Policy (Node t)) = 0 \<longrightarrow> m = 3"
      by (simp add: m_def effective_max_retries_def)
    show "MaxRetries (Policy (Node t)) \<noteq> 0 \<longrightarrow> m = MaxRetries (Policy (Node t))"
      by (simp add: m_def effective_max_retries_def)
    show "m < 1 \<longrightarrow> executeTask w env ctx t = (Inl (AttemptsExhausted m None), [])"
      using none by simp
    show "\<forall>k. 1 \<le> k \<and> k \<le> 96038 \<longrightarrow> backoff k = k * k * Second"
      using backoff_quadratic by simp
    show "1 \<le> m \<longrightarrow>
          (\<exists>n. 1 \<le> n \<and> n \<le> m
             \<and> (\<forall>k. 1 \<le> k \<and> k < n \<longrightarrow> quiet env ex ctx t k)
             \<and> (n = m \<or> \<not> quiet env ex ctx t n))"
      using first_stopping_attempt [of m "quiet env ex ctx t"] by blast
  next
    show "\<forall>n. 1 \<le> n \<and> n \<le> m \<and> (\<forall>k. 1 \<le> k \<and> k < n \<longrightarrow> quiet env ex ctx t k) \<longrightarrow>
          (\<forall>r. ex ctx t n = Returned r \<longrightarrow>
             executeTask w env ctx t = (Inr r, attempts_prefix 1 n @ [Execute n]))
          \<and> (\<forall>e ce. ex ctx t n = Failed e \<and> n < m
                  \<and> ctx_done_first env ctx n (backoff n) = Some ce \<longrightarrow>
               executeTask w env ctx t
                 = (Inl (ContextDone ce),
                    attempts_prefix 1 n @ [Execute n, Interrupted n (backoff n) ce]))
          \<and> (\<forall>e. ex ctx t n = Failed e \<and> n = m \<longrightarrow>
               executeTask w env ctx t
                 = (Inl (AttemptsExhausted n (Some e)), attempts_prefix 1 n @ [Execute n]))"
      using some by blast
  qed
qed

theorem executeTask_retry_loop_witness:
  "executors worker1 (Type (Node (task1 ''Function'' 0))) = Some ex_flaky
   \<and> effective_max_retries (task1 ''Function'' 0) = 3
   \<and> executeTask worker1 wenv_ok \<lparr>deadline = 60000000000\<rparr> (task1 ''Function'' 0)
       = (Inr (Some ok_result),
          [Execute 1, Sleep 1 1000000000, Execute 2, Sleep 2 4000000000, Execute 3])
   \<and> executeTask worker1 wenv_deadline \<lparr>deadline = 60000000000\<rparr> (task1 ''Function'' 0)
       = (Inl (ContextDone DeadlineExceeded),
          [Execute 1, Sleep 1 1000000000, Execute 2,
           Interrupted 2 4000000000 DeadlineExceeded])"
proof -
  let ?t = "task1 ''Function'' 0" and ?ctx = "\<lparr>deadline = 60000000000\<rparr>"
  have x: "executors worker1 (Type (Node ?t)) = Some ex_flaky"
    by (simp add: worker1_def task1_def)
  have z: "MaxRetries (Policy (Node ?t)) = 0"
    by (simp add: task1_def)
  note ok = executeTask_retry_loop [OF x, of wenv_ok ?ctx]
  note dl = executeTask_retry_loop [OF x, of wenv_deadline ?ctx]
  from ok z have m: "effective_max_retries ?t = 3" by blast
  have b1: "backoff 1 = 1000000000" and b2: "backoff 2 = 4000000000"
    using ok by (simp_all add: Second_def)
  have q_ok: "\<forall>k. 1 \<le> k \<and> k < 3 \<longrightarrow> quiet wenv_ok ex_flaky ?ctx ?t k"
    by (simp add: quiet_def ex_flaky_def wenv_ok_def)
  have q_dl: "\<forall>k. 1 \<le> k \<and> k < 2 \<longrightarrow> quiet wenv_deadline ex_flaky ?ctx ?t k"
    by (simp add: quiet_def ex_flaky_def wenv_ok_def wenv_deadline_def)
  have r3: "ex_flaky ?ctx ?t 3 = Returned (Some ok_result)"
    and f2: "ex_flaky ?ctx ?t 2 = Failed ''boom''"
    by (simp_all add: ex_flaky_def)
  have c2: "ctx_done_first wenv_deadline ?ctx 2 (backoff 2) = Some DeadlineExceeded"
    by (simp add: wenv_deadline_def)
  have p3: "attempts_prefix 1 3 = [Execute 1, Sleep 1 1000000000, Execute 2, Sleep 2 4000000000]"
    by (simp add: attempts_prefix_def upto_rec1 [of 1 2] b1 b2)
  have p2: "attempts_prefix 1 2 = [Execute 1, Sleep 1 1000000000]"
    by (simp add: attempts_prefix_def b1)
  note ok3 = ok [THEN conjunct2, THEN conjunct2, THEN conjunct2, THEN conjunct1,
      THEN spec [where x = "3::int"]]
  note dl2 = dl [THEN conjunct2, THEN conjunct2, THEN conjunct2, THEN conjunct1,
      THEN spec [where x = "2::int"]]
  from ok3 m q_ok r3 have 1:
    "executeTask worker1 wenv_ok ?ctx ?t = (Inr (Some ok_result), attempts_prefix 1 3 @ [Execute 3])"
    by simp
  from dl2 m q_dl f2 c2 have 2:
    "executeTask worker1 wenv_deadline ?ctx ?t
       = (Inl (ContextDone DeadlineExceeded),
          attempts_prefix 1 2 @ [Execute 2, Interrupted 2 (backoff 2) DeadlineExceeded])"
    by simp
  show ?thesis using x m 1 2 by (simp add: p3 p2 b2)
qed

section \<open>The events of executeTask and of the final steps\<close>

lemma executeTask_events:
  "ev \<in> set (snd (executeTask w env ctx t)) \<Longrightarrow> attempt_event ev"
  by (cases "executors w (Type (Node t))")
     (auto simp: executeTask_def dest: retry_loop_events)

lemma finish_task_cases:
  "(\<exists>e. finish_task env s tbl r
          = (s\<lparr>step_run := tbl\<rparr>, [UpdateResult r (Some e), Nak]))
   \<or> (\<exists>e tbl'. finish_task env s tbl r
          = (s\<lparr>step_run := tbl'\<rparr>, [UpdateResult r None, PublishResult r (Some e), Nak]))
   \<or> (\<exists>tbl'. finish_task env s tbl r
          = (s\<lparr>step_run := tbl', results := results s @ [r]\<rparr>,
             [UpdateResult r None, PublishResult r None, Ack]))"
  by (auto simp: finish_task_def updateStepWithResult_def publishResult_def
      split: option.splits)

lemmas worker_eval =
  handleTask_def finish_task_def executeTask_def effective_max_retries_def
  retry_loop.simps updateStepStatus_def updateStepWithResult_def publishResult_def
  exec_update_def task_context_def failed_result_def backoff_def wrap64_def Second_def
  worker1_def wenv_ok_def wenv_deadline_def wenv_publish_down_def wenv_db_down_def
  task1_def wworld_def
  ex_flaky_def ok_result_def ex_row_def

lemma handleTask_example_ok:
  "handleTask worker1 wenv_ok (wworld StepStatusReady) (Encoded (task1 ''Function'' 0))
     = (\<lparr>step_run = [''step-1'' \<mapsto>
           \<lparr>sr_status = StepStatusSucceeded, sr_attempt = 1, sr_worker_id = Some ''worker-1'',
            sr_lease_deadline = None, sr_started_at = Some 1001, sr_ended_at = Some 1002,
            sr_error = Some [], sr_cost_cents = 7, sr_tokens_prompt = 11,
            sr_tokens_completion = 13\<rparr>],
         results = [ok_result]\<rparr>,
        [UpdateStatus ''step-1'' None, Execute 1, Sleep 1 1000000000, Execute 2,
         Sleep 2 4000000000, Execute 3, UpdateResult ok_result None,
         PublishResult ok_result None, Ack])"
  by (simp add: worker_eval)

lemma handleTask_example_publish_down:
  "snd (handleTask worker1 wenv_publish_down (wworld StepStatusReady)
          (Encoded (task1 ''Function'' 0)))
     = [UpdateStatus ''step-1'' None, Execute 1, Sleep 1 1000000000, Execute 2,
        Sleep 2 4000000000, Execute 3, UpdateResult ok_result None,
        PublishResult ok_result (Some ''nats: timeout''), Nak]"
  by (simp add: worker_eval)

section \<open>Facts about the dispatch without executor and the two updates\<close>

lemma failed_result_no_executor:
  "failed_result t (NoExecutor (Type (Node t))) = no_executor_result t"
  by (simp add: failed_result_def no_executor_result_def)

lemma executeTask_no_executor:
  "executors w (Type (Node t)) = None \<Longrightarrow>
   executeTask w env ctx t = (Inl (NoExecutor (Type (Node t))), [])"
  by (simp add: executeTask_def)

lemma handleTask_no_executor_steps:
  assumes "executors w (Type (Node t)) = None"
  shows "handleTask w env s (Encoded t) =
     (case status_exec_err env of
        Some e \<Rightarrow> (s, [UpdateStatus (ID t) (Some e), Nak])
      | None \<Rightarrow>
          apsnd (\<lambda>fin. UpdateStatus (ID t) None # fin)
            (finish_task env s
               (snd (updateStepStatus None (now_started env) (step_run s) (ID t)
                       StepStatusRunning (w_id w)))
               (no_executor_result t)))"
  using assms
  by (simp add: handleTask_def executeTask_no_executor failed_result_no_executor
      updateStepStatus_def split: option.splits)

lemma finish_task_events:
  "ev \<in> set (snd (finish_task env s tbl r)) \<Longrightarrow>
   ev = Ack \<or> ev = Nak \<or> (\<exists>e. ev = UpdateResult r e) \<or> (\<exists>e. ev = PublishResult r e)"
  using finish_task_cases [of env s tbl r] by auto

lemma finish_task_all_ok:
  assumes "result_exec_err env = None" and "marshal_err env = None"
    and "publish_err env = None"
  shows "finish_task env s tbl r =
     (s\<lparr>step_run := snd (updateStepWithResult None (now_ended env) tbl r),
        results := results s @ [r]\<rparr>,
      [UpdateResult r None, PublishResult r None, Ack])"
  using assms
  by (simp add: finish_task_def updateStepWithResult_def publishResult_def)

lemma updateStepStatus_row:
  "snd (updateStepStatus None now tbl stepID st workerID) =
     (case tbl stepID of
        None \<Rightarrow> tbl
      | Some r \<Rightarrow> tbl(stepID \<mapsto> r\<lparr>sr_status := st, sr_worker_id := Some workerID,
           sr_started_at := (if st = StepStatusRunning then Some now else None)\<rparr>))"
  by (simp add: updateStepStatus_def exec_update_def split: option.splits)

lemma updateStepWithResult_row:
  "snd (updateStepWithResult None now tbl result) =
     (case tbl (TaskID result) of
        None \<Rightarrow> tbl
      | Some r \<Rightarrow> tbl(TaskID result \<mapsto>
           r\<lparr>sr_status := Status result, sr_ended_at := Some now,
             sr_error := Some (Error result), sr_cost_cents := CostCents result,
             sr_tokens_prompt := TokensPrompt result,
             sr_tokens_completion := TokensCompletion result\<rparr>))"
  by (simp add: updateStepWithResult_def exec_update_def split: option.splits)

section \<open>The outcomes of handleTask\<close>

lemma publishResult_error_iff:
  "fst (publishResult env published r) = None
     \<longleftrightarrow> marshal_err env = None \<and> publish_err env = None"
  by (simp add: publishResult_def split: option.splits)

lemma finish_task_db_failed:
  "result_exec_err env = Some e \<Longrightarrow>
   finish_task env s tbl r = (s\<lparr>step_run := tbl\<rparr>, [UpdateResult r (Some e), Nak])"
  by (simp add: finish_task_def updateStepWithResult_def)

lemma finish_task_publish_failed:
  assumes "result_exec_err env = None" and "fst (publishResult env (results s) r) = Some e"
  shows "snd (finish_task env s tbl r)
           = [UpdateResult r None, PublishResult r (Some e), Nak]"
  using assms
  by (cases "publishResult env (results s) r")
     (simp add: finish_task_def updateStepWithResult_def)

lemma handleTask_outcomes:
  "(m = Undecodable \<and> snd (handleTask w env s m) = [Nak])
   \<or> (\<exists>t e. m = Encoded t \<and> status_exec_err env = Some e
         \<and> snd (handleTask w env s m) = [UpdateStatus (ID t) (Some e), Nak])
   \<or> (\<exists>t tr. m = Encoded t \<and> status_exec_err env = None
         \<and> (\<forall>ev \<in> set tr. attempt_event ev)
         \<and> snd (handleTask w env s m) = UpdateStatus (ID t) None # tr @ [Panic])
   \<or> (\<exists>t tr r e. m = Encoded t \<and> status_exec_err env = None
         \<and> result_exec_err env = Some e
         \<and> (\<forall>ev \<in> set tr. attempt_event ev)
         \<and> snd (handleTask w env s m)
             = UpdateStatus (ID t) None # tr @ [UpdateResult r (Some e), Nak])
   \<or> (\<exists>t tr r e. m = Encoded t \<and> status_exec_err env = None
         \<and> result_exec_err env = None
         \<and> fst (publishResult env (results s) r) = Some e
         \<and> (\<forall>ev \<in> set tr. attempt_event ev)
         \<and> snd (handleTask w env s m)
             = UpdateStatus (ID t) None # tr @ [UpdateResult r None, PublishResult r (Some e), Nak])
   \<or> (\<exists>t tr r. m = Encoded t \<and> status_exec_err env = None
         \<and> result_exec_err env = None \<and> marshal_err env = None \<and> publish_err env = None
         \<and> (\<forall>ev \<in> set tr. attempt_event ev)
         \<and> handleTask w env s m
             = (s\<lparr>step_run := snd (updateStepWithResult None (now_ended env)
                    (snd (updateStepStatus None (now_started env) (step_run s) (ID t)
                            StepStatusRunning (w_id w))) r),
                  results := results s @ [r]\<rparr>,
                UpdateStatus (ID t) None # tr @ [UpdateResult r None, PublishResult r None, Ack]))"
proof (cases m)
  case Undecodable
  then show ?thesis by (simp add: handleTask_def)
next
  case (Encoded t)
  show ?thesis
  proof (cases "status_exec_err env")
    case (Some e)
    with Encoded show ?thesis
      by (simp add: handleTask_def updateStepStatus_def)
  next
    case None
    define ctx where "ctx = task_context env t"
    define tbl where "tbl = snd (updateStepStatus None (now_started env) (step_run s) (ID t)
        StepStatusRunning (w_id w))"
    obtain res tr where ex: "executeTask w env ctx t = (res, tr)" by force
    have tr: "\<forall>ev \<in> set tr. attempt_event ev"
      using executeTask_events [of _ w env ctx t] ex by simp
    have upd: "updateStepStatus None (now_started env) (step_run s) (ID t)
        StepStatusRunning (w_id w) = (None, tbl)"
      by (simp add: tbl_def updateStepStatus_def)
    show ?thesis
    proof (cases "case res of Inl err \<Rightarrow> Some (failed_result t err) | Inr result \<Rightarrow> result")
      case nil: None
      have "snd (handleTask w env s m) = UpdateStatus (ID t) None # tr @ [Panic]"
        using Encoded None upd ex nil
        by (simp add: handleTask_def Let_def flip: ctx_def)
      with tr Encoded None show ?thesis by blast
    next
      case (Some r)
      have h: "handleTask w env s m
                 = apsnd (\<lambda>fin. UpdateStatus (ID t) None # tr @ fin) (finish_task env s tbl r)"
        using Encoded None upd ex Some
        by (simp add: handleTask_def Let_def flip: ctx_def)
      show ?thesis
      proof (cases "result_exec_err env")
        case db: (Some e)
        have "snd (handleTask w env s m)
                = UpdateStatus (ID t) None # tr @ [UpdateResult r (Some e), Nak]"
          by (simp add: h finish_task_db_failed [OF db])
        with tr Encoded None db show ?thesis by blast
      next
        case ok: None
        show ?thesis
        proof (cases "fst (publishResult env (results s) r)")
          case pub: (Some e)
          have "snd (handleTask w env s m)
                = UpdateStatus (ID t) None # tr @ [UpdateResult r None, PublishResult r (Some e), Nak]"
            by (simp add: h finish_task_publish_failed [OF ok pub])
          with tr Encoded None ok pub show ?thesis by blast
        next
          case pn: None
          then have mp: "marshal_err env = None" "publish_err env = None"
            by (simp_all add: publishResult_error_iff)
          have "handleTask w env s m
             = (s\<lparr>step_run := snd (updateStepWithResult None (now_ended env) tbl r),
                  results := results s @ [r]\<rparr>,
                UpdateStatus (ID t) None # tr @ [UpdateResult r None, PublishResult r None, Ack])"
            by (simp add: h finish_task_all_ok [OF ok mp])
          with tr Encoded None ok mp show ?thesis unfolding tbl_def by blast
        qed
      qed
    qed
  qed
qed


lemma handleTask_example_db_down:
  "snd (handleTask worker1 wenv_db_down (wworld StepStatusReady)
          (Encoded (task1 ''Function'' 0)))
     = [UpdateStatus ''step-1'' None, Execute 1, Sleep 1 1000000000, Execute 2,
        Sleep 2 4000000000, Execute 3,
        UpdateResult ok_result (Some ''pq: connection refused''), Nak]"
  by (simp add: worker_eval)

section \<open>Acknowledgement of a delivered message\<close>

text \<open>
  C1. For every delivered message, the worker acks only after both the result write to
  the StepRun row and the publish to the results subject have succeeded. If the trace
  contains \<open>Ack\<close>, then the status update, the result write, the marshalling and the
  publish all returned no error; the trace ends with the \<^verbatim>\<open>updateStepWithResult\<close> call,
  the \<^verbatim>\<open>publishResult\<close> call of the same result and then \<open>Ack\<close>, with no \<open>Ack\<close> or
  \<open>Nak\<close> before; the store holds the table after both updates and the result is the
  last message of the results subject. If the result write or the publish (its
  marshalling included) fails, there is no \<open>Ack\<close>, and a worker that got as far as the
  result write ends with \<open>Nak\<close>. The error recorded with each call in the trace is the
  one the store or the log returned. When nothing fails and the executor returned a
  result, the trace ends with \<open>Ack\<close>.
\<close>

theorem handleTask_ack_after_write_and_publish:
  "(Ack \<in> set (snd (handleTask w env s m)) \<longrightarrow>
      status_exec_err env = None \<and> result_exec_err env = None
      \<and> marshal_err env = None \<and> publish_err env = None
      \<and> (\<exists>pre result t.
            m = Encoded t
          \<and> snd (handleTask w env s m)
              = pre @ [UpdateResult result None, PublishResult result None, Ack]
          \<and> Ack \<notin> set pre \<and> Nak \<notin> set pre
          \<and> step_run (fst (handleTask w env s m))
              = snd (updateStepWithResult None (now_ended env)
                  (snd (updateStepStatus None (now_started env) (step_run s) (ID t)
                          StepStatusRunning (w_id w))) result)
          \<and> results (fst (handleTask w env s m)) = results s @ [result]))
   \<and> (result_exec_err env \<noteq> None \<or> marshal_err env \<noteq> None \<or> publish_err env \<noteq> None \<longrightarrow>
        Ack \<notin> set (snd (handleTask w env s m))
        \<and> (\<forall>result x. UpdateResult result x \<in> set (snd (handleTask w env s m)) \<longrightarrow>
              last (snd (handleTask w env s m)) = Nak))
   \<and> (\<forall>result x. UpdateResult result x \<in> set (snd (handleTask w env s m)) \<longrightarrow>
         x = result_exec_err env)
   \<and> (\<forall>result x. PublishResult result x \<in> set (snd (handleTask w env s m)) \<longrightarrow>
         result_exec_err env = None \<and> x = fst (publishResult env (results s) result))
   \<and> (\<forall>result e.
         UpdateResult result (Some e) \<in> set (snd (handleTask w env s m))
         \<or> PublishResult result (Some e) \<in> set (snd (handleTask w env s m)) \<longrightarrow>
         Ack \<notin> set (snd (handleTask w env s m))
         \<and> last (snd (handleTask w env s m)) = Nak)
   \<and> ((\<exists>t. m = Encoded t) \<and> status_exec_err env = None \<and> result_exec_err env = None
        \<and> marshal_err env = None \<and> publish_err env = None
        \<and> Panic \<notin> set (snd (handleTask w env s m)) \<longrightarrow>
      last (snd (handleTask w env s m)) = Ack)"
proof -
  have a [simp]: "\<not> attempt_event Ack" "\<not> attempt_event Nak"
    "\<And>r e. \<not> attempt_event (UpdateResult r e)" "\<And>r e. \<not> attempt_event (PublishResult r e)"
    by (simp_all add: attempt_event_def)
  let ?T = "snd (handleTask w env s m)"
  from handleTask_outcomes [of m w env s] show ?thesis
  proof (elim disjE exE conjE)
    assume "m = Undecodable" "?T = [Nak]"
    then show ?thesis by simp
  next
    fix t e assume "status_exec_err env = Some e" "?T = [UpdateStatus (ID t) (Some e), Nak]"
    then show ?thesis by simp
  next
    fix t tr assume "\<forall>ev \<in> set tr. attempt_event ev"
      "?T = UpdateStatus (ID t) None # tr @ [Panic]"
    then show ?thesis by auto
  next
    fix t tr r e assume "result_exec_err env = Some e" "\<forall>ev \<in> set tr. attempt_event ev"
      "?T = UpdateStatus (ID t) None # tr @ [UpdateResult r (Some e), Nak]"
    then show ?thesis by auto
  next
    fix t tr r e assume pub: "result_exec_err env = None"
      "fst (publishResult env (results s) r) = Some e" "\<forall>ev \<in> set tr. attempt_event ev"
      "?T = UpdateStatus (ID t) None # tr @ [UpdateResult r None, PublishResult r (Some e), Nak]"
    from pub(2) have "\<not> (marshal_err env = None \<and> publish_err env = None)"
      using publishResult_error_iff [of env "results s" r] by simp
    with pub show ?thesis by auto
  next
    fix t tr r
    assume ack: "m = Encoded t" "status_exec_err env = None"
      "result_exec_err env = None" "marshal_err env = None" "publish_err env = None"
      "\<forall>ev \<in> set tr. attempt_event ev"
      "handleTask w env s m
         = (s\<lparr>step_run := snd (updateStepWithResult None (now_ended env)
                (snd (updateStepStatus None (now_started env) (step_run s) (ID t)
                        StepStatusRunning (w_id w))) r),
              results := results s @ [r]\<rparr>,
            UpdateStatus (ID t) None # tr @ [UpdateResult r None, PublishResult r None, Ack])"
    let ?pre = "UpdateStatus (ID t) None # tr"
    have T: "?T = ?pre @ [UpdateResult r None, PublishResult r None, Ack]"
      by (simp add: ack(7))
    have pre: "Ack \<notin> set ?pre" "Nak \<notin> set ?pre"
      using ack(6) by auto
    have st: "step_run (fst (handleTask w env s m))
        = snd (updateStepWithResult None (now_ended env)
            (snd (updateStepStatus None (now_started env) (step_run s) (ID t)
                    StepStatusRunning (w_id w))) r)"
      and rs: "results (fst (handleTask w env s m)) = results s @ [r]"
      by (simp_all add: ack(7))
    have 1: "\<exists>pre result t.
            m = Encoded t
          \<and> ?T = pre @ [UpdateResult result None, PublishResult result None, Ack]
          \<and> Ack \<notin> set pre \<and> Nak \<notin> set pre
          \<and> step_run (fst (handleTask w env s m))
              = snd (updateStepWithResult None (now_ended env)
                  (snd (updateStepStatus None (now_started env) (step_run s) (ID t)
                          StepStatusRunning (w_id w))) result)
          \<and> results (fst (handleTask w env s m)) = results s @ [result]"
      using ack(1) T pre st rs by blast
    have pr: "fst (publishResult env (results s) r') = None" for r'
      using ack(4,5) by (simp add: publishResult_error_iff)
    have ev: "UpdateResult r' x \<in> set ?T \<Longrightarrow> x = None"
      "PublishResult r' x \<in> set ?T \<Longrightarrow> x = None" for r' x
      using ack(6) by (auto simp: T)
    have no: "UpdateResult r' (Some e) \<notin> set ?T" "PublishResult r' (Some e) \<notin> set ?T" for r' e
      using ev by blast+
    show ?thesis
    proof (intro conjI)
      show "Ack \<in> set ?T \<longrightarrow>
        status_exec_err env = None \<and> result_exec_err env = None
        \<and> marshal_err env = None \<and> publish_err env = None
        \<and> (\<exists>pre result t.
            m = Encoded t
          \<and> ?T = pre @ [UpdateResult result None, PublishResult result None, Ack]
          \<and> Ack \<notin> set pre \<and> Nak \<notin> set pre
          \<and> step_run (fst (handleTask w env s m))
              = snd (updateStepWithResult None (now_ended env)
                  (snd (updateStepStatus None (now_started env) (step_run s) (ID t)
                          StepStatusRunning (w_id w))) result)
          \<and> results (fst (handleTask w env s m)) = results s @ [result])"
        using 1 ack(2-5) by blast
      show "result_exec_err env \<noteq> None \<or> marshal_err env \<noteq> None \<or> publish_err env \<noteq> None \<longrightarrow>
        Ack \<notin> set ?T
        \<and> (\<forall>result x. UpdateResult result x \<in> set ?T \<longrightarrow> last ?T = Nak)"
        using ack(3-5) by simp
      show "\<forall>result x. UpdateResult result x \<in> set ?T \<longrightarrow> x = result_exec_err env"
        using ev(1) ack(3) by simp
      show "\<forall>result x. PublishResult result x \<in> set ?T \<longrightarrow>
         result_exec_err env = None \<and> x = fst (publishResult env (results s) result)"
        using ev(2) ack(3) pr by simp
      show "\<forall>result e.
         UpdateResult result (Some e) \<in> set ?T \<or> PublishResult result (Some e) \<in> set ?T \<longrightarrow>
         Ack \<notin> set ?T \<and> last ?T = Nak"
        using no by blast
      show "(\<exists>t. m = Encoded t) \<and> status_exec_err env = None \<and> result_exec_err env = None
        \<and> marshal_err env = None \<and> publish_err env = None \<and> Panic \<notin> set ?T \<longrightarrow>
        last ?T = Ack"
        by (simp add: T)
    qed
  qed
qed

theorem handleTask_ack_after_write_and_publish_witness:
  "Ack \<in> set (snd (handleTask worker1 wenv_ok (wworld StepStatusReady)
                      (Encoded (task1 ''Function'' 0))))
   \<and> (\<exists>pre result.
         snd (handleTask worker1 wenv_ok (wworld StepStatusReady)
                (Encoded (task1 ''Function'' 0)))
           = pre @ [UpdateResult result None, PublishResult result None, Ack]
         \<and> Ack \<notin> set pre \<and> Nak \<notin> set pre
         \<and> results (fst (handleTask worker1 wenv_ok (wworld StepStatusReady)
                (Encoded (task1 ''Function'' 0))))
             = results (wworld StepStatusReady) @ [result])
   \<and> result_exec_err wenv_db_down \<noteq> None
   \<and> UpdateResult ok_result (Some ''pq: connection refused'')
       \<in> set (snd (handleTask worker1 wenv_db_down (wworld StepStatusReady)
                      (Encoded (task1 ''Function'' 0))))
   \<and> Ack \<notin> set (snd (handleTask worker1 wenv_db_down (wworld StepStatusReady)
                      (Encoded (task1 ''Function'' 0))))
   \<and> last (snd (handleTask worker1 wenv_db_down (wworld StepStatusReady)
                   (Encoded (task1 ''Function'' 0)))) = Nak
   \<and> publish_err wenv_publish_down \<noteq> None
   \<and> PublishResult ok_result (Some ''nats: timeout'')
       \<in> set (snd (handleTask worker1 wenv_publish_down (wworld StepStatusReady)
                      (Encoded (task1 ''Function'' 0))))
   \<and> Ack \<notin> set (snd (handleTask worker1 wenv_publish_down (wworld StepStatusReady)
                      (Encoded (task1 ''Function'' 0))))
   \<and> last (snd (handleTask worker1 wenv_publish_down (wworld StepStatusReady)
                   (Encoded (task1 ''Function'' 0)))) = Nak"
proof -
  let ?s = "wworld StepStatusReady" and ?m = "Encoded (task1 ''Function'' 0)"
  have a: "Ack \<in> set (snd (handleTask worker1 wenv_ok ?s ?m))"
    by (simp add: handleTask_example_ok)
  have d: "result_exec_err wenv_db_down \<noteq> None"
    by (simp add: wenv_db_down_def)
  have du: "UpdateResult ok_result (Some ''pq: connection refused'')
       \<in> set (snd (handleTask worker1 wenv_db_down ?s ?m))"
    by (simp add: handleTask_example_db_down)
  have p: "publish_err wenv_publish_down \<noteq> None"
    by (simp add: wenv_publish_down_def)
  have pp: "PublishResult ok_result (Some ''nats: timeout'')
       \<in> set (snd (handleTask worker1 wenv_publish_down ?s ?m))"
    by (simp add: handleTask_example_publish_down)
  note ok = handleTask_ack_after_write_and_publish [of worker1 wenv_ok ?s ?m]
  note db = handleTask_ack_after_write_and_publish [of worker1 wenv_db_down ?s ?m]
  note down = handleTask_ack_after_write_and_publish [of worker1 wenv_publish_down ?s ?m]
  from ok a have 1: "\<exists>pre result.
         snd (handleTask worker1 wenv_ok ?s ?m)
           = pre @ [UpdateResult result None, PublishResult result None, Ack]
         \<and> Ack \<notin> set pre \<and> Nak \<notin> set pre
         \<and> results (fst (handleTask worker1 wenv_ok ?s ?m)) = results ?s @ [result]"
    by blast
  from db d du have 2:
    "Ack \<notin> set (snd (handleTask worker1 wenv_db_down ?s ?m))
     \<and> last (snd (handleTask worker1 wenv_db_down ?s ?m)) = Nak"
    by blast
  from down p pp have 3:
    "Ack \<notin> set (snd (handleTask worker1 wenv_publish_down ?s ?m))
     \<and> last (snd (handleTask worker1 wenv_publish_down ?s ?m)) = Nak"
    by blast
  show ?thesis using a d du p pp 1 2 3 by blast
qed

section \<open>A task whose node type has no executor\<close>

text \<open>
  C9. When no executor is registered for the node type of a delivered task,
  \<^verbatim>\<open>executeTask\<close> returns the error \<^verbatim>\<open>no executor for node type ...\<close> without any
  call of \<^verbatim>\<open>Execute\<close>, and the trace of \<^verbatim>\<open>handleTask\<close> has no execution attempt
  either. With the store and the log answering without error, the worker builds the
  \<^verbatim>\<open>failed\<close> result carrying that error, writes it to the StepRun row (status
  \<^verbatim>\<open>failed\<close>, the error message, \<^verbatim>\<open>ended_at\<close>), publishes it to the results subject
  and acks.
\<close>

theorem handleTask_no_executor:
  assumes "executors w (Type (Node t)) = None"
  shows
    "executeTask w env ctx t = (Inl (NoExecutor (Type (Node t))), [])
     \<and> (\<forall>k. Execute k \<notin> set (snd (handleTask w env s (Encoded t))))
     \<and> (status_exec_err env = None \<and> result_exec_err env = None
          \<and> marshal_err env = None \<and> publish_err env = None \<longrightarrow>
        snd (handleTask w env s (Encoded t))
          = [UpdateStatus (ID t) None, UpdateResult (no_executor_result t) None,
             PublishResult (no_executor_result t) None, Ack]
        \<and> results (fst (handleTask w env s (Encoded t)))
            = results s @ [no_executor_result t]
        \<and> (\<forall>r. step_run s (ID t) = Some r \<longrightarrow>
              step_run (fst (handleTask w env s (Encoded t))) (ID t)
                = Some (r\<lparr>sr_status := StepStatusFailed, sr_worker_id := Some (w_id w),
                     sr_started_at := Some (now_started env),
                     sr_ended_at := Some (now_ended env),
                     sr_error := Some (''no executor for node type '' @ Type (Node t)),
                     sr_cost_cents := 0, sr_tokens_prompt := 0,
                     sr_tokens_completion := 0\<rparr>)))"
proof (intro conjI allI impI)
  show "executeTask w env ctx t = (Inl (NoExecutor (Type (Node t))), [])"
    using assms by (rule executeTask_no_executor)
next
  fix k
  note h = handleTask_no_executor_steps [OF assms, of env s]
  show "Execute k \<notin> set (snd (handleTask w env s (Encoded t)))"
  proof (cases "status_exec_err env")
    case (Some e)
    then show ?thesis by (simp add: h)
  next
    case None
    then show ?thesis
      by (auto simp: h dest: finish_task_events)
  qed
next
  assume ok: "status_exec_err env = None \<and> result_exec_err env = None
          \<and> marshal_err env = None \<and> publish_err env = None"
  define tbl where "tbl = snd (updateStepStatus None (now_started env) (step_run s) (ID t)
                       StepStatusRunning (w_id w))"
  have h: "handleTask w env s (Encoded t) =
      (s\<lparr>step_run := snd (updateStepWithResult None (now_ended env) tbl (no_executor_result t)),
         results := results s @ [no_executor_result t]\<rparr>,
       [UpdateStatus (ID t) None, UpdateResult (no_executor_result t) None,
        PublishResult (no_executor_result t) None, Ack])"
    using ok by (simp add: handleTask_no_executor_steps [OF assms] finish_task_all_ok tbl_def)
  show "snd (handleTask w env s (Encoded t))
          = [UpdateStatus (ID t) None, UpdateResult (no_executor_result t) None,
             PublishResult (no_executor_result t) None, Ack]"
    by (simp add: h)
  show "results (fst (handleTask w env s (Encoded t))) = results s @ [no_executor_result t]"
    by (simp add: h)
  fix r assume r: "step_run s (ID t) = Some r"
  have id: "TaskID (no_executor_result t) = ID t"
    by (simp add: no_executor_result_def)
  have 1: "tbl (ID t) = Some (r\<lparr>sr_status := StepStatusRunning, sr_worker_id := Some (w_id w),
             sr_started_at := Some (now_started env)\<rparr>)"
    by (simp add: tbl_def updateStepStatus_row r)
  show "step_run (fst (handleTask w env s (Encoded t))) (ID t)
      = Some (r\<lparr>sr_status := StepStatusFailed, sr_worker_id := Some (w_id w),
           sr_started_at := Some (now_started env),
           sr_ended_at := Some (now_ended env),
           sr_error := Some (''no executor for node type '' @ Type (Node t)),
           sr_cost_cents := 0, sr_tokens_prompt := 0,
           sr_tokens_completion := 0\<rparr>)"
    by (simp add: h updateStepWithResult_row id 1) (simp add: no_executor_result_def)
qed

theorem handleTask_no_executor_witness:
  "executors worker_llm_only (Type (Node (task1 ''Function'' 0))) = None
   \<and> executeTask worker_llm_only wenv_ok \<lparr>deadline = 60000000000\<rparr> (task1 ''Function'' 0)
       = (Inl (NoExecutor ''Function''), [])
   \<and> snd (handleTask worker_llm_only wenv_ok (wworld StepStatusReady)
            (Encoded (task1 ''Function'' 0)))
       = [UpdateStatus ''step-1'' None,
          UpdateResult (no_executor_result (task1 ''Function'' 0)) None,
          PublishResult (no_executor_result (task1 ''Function'' 0)) None, Ack]
   \<and> results (fst (handleTask worker_llm_only wenv_ok (wworld StepStatusReady)
            (Encoded (task1 ''Function'' 0))))
       = [\<lparr>TaskID = ''step-1'', Status = StepStatusFailed,
           Error = ''no executor for node type Function'',
           CostCents = 0, TokensPrompt = 0, TokensCompletion = 0\<rparr>]
   \<and> step_run (fst (handleTask worker_llm_only wenv_ok (wworld StepStatusReady)
            (Encoded (task1 ''Function'' 0)))) ''step-1''
       = Some \<lparr>sr_status = StepStatusFailed, sr_attempt = 1,
           sr_worker_id = Some ''worker-2'', sr_lease_deadline = None,
           sr_started_at = Some 1001, sr_ended_at = Some 1002,
           sr_error = Some ''no executor for node type Function'', sr_cost_cents = 0,
           sr_tokens_prompt = 0, sr_tokens_completion = 0\<rparr>"
proof -
  let ?t = "task1 ''Function'' 0"
  have x: "executors worker_llm_only (Type (Node ?t)) = None"
    by (simp add: worker_llm_only_def task1_def)
  have ok: "status_exec_err wenv_ok = None \<and> result_exec_err wenv_ok = None
          \<and> marshal_err wenv_ok = None \<and> publish_err wenv_ok = None"
    by (simp add: wenv_ok_def)
  have r: "step_run (wworld StepStatusReady) (ID ?t) = Some (ex_row StepStatusReady)"
    by (simp add: wworld_def task1_def)
  note th = handleTask_no_executor [OF x, of wenv_ok "\<lparr>deadline = 60000000000\<rparr>"
      "wworld StepStatusReady"]
  from th have 1: "executeTask worker_llm_only wenv_ok \<lparr>deadline = 60000000000\<rparr> ?t
       = (Inl (NoExecutor (Type (Node ?t))), [])"
    by blast
  from th ok have 2: "snd (handleTask worker_llm_only wenv_ok (wworld StepStatusReady)
            (Encoded ?t))
       = [UpdateStatus (ID ?t) None, UpdateResult (no_executor_result ?t) None,
          PublishResult (no_executor_result ?t) None, Ack]"
    and 3: "results (fst (handleTask worker_llm_only wenv_ok (wworld StepStatusReady)
            (Encoded ?t))) = results (wworld StepStatusReady) @ [no_executor_result ?t]"
    by blast+
  from th ok r have 4: "step_run (fst (handleTask worker_llm_only wenv_ok
            (wworld StepStatusReady) (Encoded ?t))) (ID ?t)
       = Some ((ex_row StepStatusReady)\<lparr>sr_status := StepStatusFailed,
             sr_worker_id := Some (w_id worker_llm_only),
             sr_started_at := Some (now_started wenv_ok),
             sr_ended_at := Some (now_ended wenv_ok),
             sr_error := Some (''no executor for node type '' @ Type (Node ?t)),
             sr_cost_cents := 0, sr_tokens_prompt := 0, sr_tokens_completion := 0\<rparr>)"
    by blast
  have i: "ID ?t = ''step-1''" "Type (Node ?t) = ''Function''"
    by (simp_all add: task1_def)
  show ?thesis
    using x 1 2 3 4 unfolding i
    by (simp add: wworld_def no_executor_result_def task1_def ex_row_def wenv_ok_def
        worker_llm_only_def)
qed

section \<open>The worker's transition to running\<close>

text \<open>
  C2, as stated: the transition is a compare-and-set on \<^verbatim>\<open>ready\<close>, and a row that is
  already \<^verbatim>\<open>canceled\<close> makes the worker ack and return with the row untouched. On the
  store holding \<^verbatim>\<open>step-1\<close> in status \<^verbatim>\<open>canceled\<close>, the update statement puts the row
  in \<^verbatim>\<open>running\<close> under the worker's id, and the worker goes on to run the executor three
  times and to overwrite the row with the result.
\<close>

theorem updateStepStatus_cas_counterexample:
  "step_run (wworld StepStatusCanceled) ''step-1'' = Some (ex_row StepStatusCanceled)
   \<and> sr_status (ex_row StepStatusCanceled) = StepStatusCanceled
   \<and> updateStepStatus None 1001 (step_run (wworld StepStatusCanceled)) ''step-1''
         StepStatusRunning ''worker-1''
       = (None, [''step-1'' \<mapsto> (ex_row StepStatusCanceled)
            \<lparr>sr_status := StepStatusRunning, sr_worker_id := Some ''worker-1'',
             sr_started_at := Some 1001\<rparr>])
   \<and> snd (handleTask worker1 wenv_ok (wworld StepStatusCanceled)
            (Encoded (task1 ''Function'' 0)))
       = [UpdateStatus ''step-1'' None, Execute 1, Sleep 1 1000000000, Execute 2,
          Sleep 2 4000000000, Execute 3, UpdateResult ok_result None,
          PublishResult ok_result None, Ack]
   \<and> step_run (fst (handleTask worker1 wenv_ok (wworld StepStatusCanceled)
            (Encoded (task1 ''Function'' 0)))) ''step-1''
       = Some ((ex_row StepStatusCanceled)
            \<lparr>sr_status := StepStatusSucceeded, sr_worker_id := Some ''worker-1'',
             sr_started_at := Some 1001, sr_ended_at := Some 1002, sr_error := Some [],
             sr_cost_cents := 7, sr_tokens_prompt := 11, sr_tokens_completion := 13\<rparr>)"
  by (simp add: worker_eval)

text \<open>
  C2, amended: the worker's transition of a StepRun to \<^verbatim>\<open>running\<close> is an update by id
  with no condition on the status. Whatever the row's status, it sets status
  \<^verbatim>\<open>running\<close>, the worker's id and \<^verbatim>\<open>started_at = now\<close>, and leaves every other column,
  \<^verbatim>\<open>lease_deadline\<close> among them, as it was; a missing row changes nothing. When the
  statement returns an error the worker naks and returns without dispatching; otherwise
  the worker goes on to the executor dispatch, whatever the status of the row was.
\<close>

theorem updateStepStatus_unconditional:
  "updateStepStatus None now tbl stepID StepStatusRunning workerID
     = (None,
        case tbl stepID of
          None \<Rightarrow> tbl
        | Some r \<Rightarrow> tbl(stepID \<mapsto> r\<lparr>sr_status := StepStatusRunning,
             sr_worker_id := Some workerID, sr_started_at := Some now\<rparr>))
   \<and> (status_exec_err env = Some e \<longrightarrow>
        snd (handleTask w env s (Encoded t)) = [UpdateStatus (ID t) (Some e), Nak])
   \<and> (status_exec_err env = None \<longrightarrow>
        (\<exists>fin. snd (handleTask w env s (Encoded t))
           = UpdateStatus (ID t) None # snd (executeTask w env (task_context env t) t) @ fin))"
proof (intro conjI impI)
  show "updateStepStatus None now tbl stepID StepStatusRunning workerID
     = (None,
        case tbl stepID of
          None \<Rightarrow> tbl
        | Some r \<Rightarrow> tbl(stepID \<mapsto> r\<lparr>sr_status := StepStatusRunning,
             sr_worker_id := Some workerID, sr_started_at := Some now\<rparr>))"
    by (simp add: updateStepStatus_def exec_update_def split: option.splits)
next
  assume "status_exec_err env = Some e"
  then show "snd (handleTask w env s (Encoded t)) = [UpdateStatus (ID t) (Some e), Nak]"
    by (simp add: handleTask_def updateStepStatus_def)
next
  assume ok: "status_exec_err env = None"
  obtain res tr where ex: "executeTask w env (task_context env t) t = (res, tr)" by force
  show "\<exists>fin. snd (handleTask w env s (Encoded t))
           = UpdateStatus (ID t) None # snd (executeTask w env (task_context env t) t) @ fin"
  proof (cases "case res of Inl err \<Rightarrow> Some (failed_result t err) | Inr result \<Rightarrow> result")
    case None
    with ok ex have "snd (handleTask w env s (Encoded t))
        = UpdateStatus (ID t) None # tr @ [Panic]"
      by (simp add: handleTask_def updateStepStatus_def)
    with ex show ?thesis by simp
  next
    case (Some r)
    with ok ex have "snd (handleTask w env s (Encoded t))
        = UpdateStatus (ID t) None # tr @ snd (finish_task env s
            (snd (updateStepStatus None (now_started env) (step_run s) (ID t)
                    StepStatusRunning (w_id w))) r)"
      by (simp add: handleTask_def updateStepStatus_def)
    with ex show ?thesis by simp
  qed
qed

theorem updateStepStatus_unconditional_witness:
  "updateStepStatus None 1001 [''step-1'' \<mapsto> ex_row StepStatusSucceeded] ''step-1''
       StepStatusRunning ''worker-1''
     = (None, [''step-1'' \<mapsto> (ex_row StepStatusSucceeded)
          \<lparr>sr_status := StepStatusRunning, sr_worker_id := Some ''worker-1'',
           sr_started_at := Some 1001\<rparr>])
   \<and> status_exec_err (wenv_ok\<lparr>status_exec_err := Some ''pq: connection refused''\<rparr>)
       = Some ''pq: connection refused''
   \<and> snd (handleTask worker1 (wenv_ok\<lparr>status_exec_err := Some ''pq: connection refused''\<rparr>)
         (wworld StepStatusReady) (Encoded (task1 ''Function'' 0)))
       = [UpdateStatus ''step-1'' (Some ''pq: connection refused''), Nak]
   \<and> status_exec_err wenv_ok = None
   \<and> (\<exists>fin. snd (handleTask worker1 wenv_ok (wworld StepStatusSucceeded)
                    (Encoded (task1 ''Function'' 0)))
          = UpdateStatus ''step-1'' None
            # snd (executeTask worker1 wenv_ok
                     (task_context wenv_ok (task1 ''Function'' 0)) (task1 ''Function'' 0))
            @ fin)"
proof -
  let ?down = "wenv_ok\<lparr>status_exec_err := Some ''pq: connection refused''\<rparr>"
  let ?t = "task1 ''Function'' 0"
  have d: "status_exec_err ?down = Some ''pq: connection refused''" by simp
  have o: "status_exec_err wenv_ok = None" by (simp add: wenv_ok_def)
  have i: "ID ?t = ''step-1''" by (simp add: task1_def)
  note a = updateStepStatus_unconditional
    [of 1001 "[''step-1'' \<mapsto> ex_row StepStatusSucceeded]" "''step-1''" "''worker-1''"
        ?down "''pq: connection refused''" worker1 "wworld StepStatusReady" ?t]
  note b = updateStepStatus_unconditional
    [of 1001 "[''step-1'' \<mapsto> ex_row StepStatusSucceeded]" "''step-1''" "''worker-1''"
        wenv_ok "''x''" worker1 "wworld StepStatusSucceeded" ?t]
  from a have 1: "updateStepStatus None 1001 [''step-1'' \<mapsto> ex_row StepStatusSucceeded]
       ''step-1'' StepStatusRunning ''worker-1''
     = (None, [''step-1'' \<mapsto> (ex_row StepStatusSucceeded)
          \<lparr>sr_status := StepStatusRunning, sr_worker_id := Some ''worker-1'',
           sr_started_at := Some 1001\<rparr>])"
    by simp
  from a d have 2: "snd (handleTask worker1 ?down (wworld StepStatusReady) (Encoded ?t))
       = [UpdateStatus ''step-1'' (Some ''pq: connection refused''), Nak]"
    unfolding i by blast
  from b o have 3: "\<exists>fin. snd (handleTask worker1 wenv_ok (wworld StepStatusSucceeded)
                    (Encoded ?t))
          = UpdateStatus ''step-1'' None
            # snd (executeTask worker1 wenv_ok (task_context wenv_ok ?t) ?t) @ fin"
    unfolding i by blast
  show ?thesis using 1 2 3 d o by blast
qed

section \<open>The worker's result write on a canceled row\<close>

text \<open>
  C3, as stated: the worker's result-update statement leaves a \<^verbatim>\<open>canceled\<close> row
  unchanged and never makes it \<^verbatim>\<open>succeeded\<close>. On the store holding \<^verbatim>\<open>step-1\<close> in
  status \<^verbatim>\<open>canceled\<close>, writing a \<^verbatim>\<open>succeeded\<close> result for \<^verbatim>\<open>step-1\<close> leaves the row
  in status \<^verbatim>\<open>succeeded\<close>.
\<close>

theorem updateStepWithResult_canceled_counterexample:
  "sr_status (ex_row StepStatusCanceled) = StepStatusCanceled
   \<and> TaskID ok_result = ''step-1'' \<and> Status ok_result = StepStatusSucceeded
   \<and> updateStepWithResult None 1002 [''step-1'' \<mapsto> ex_row StepStatusCanceled] ok_result
       = (None, [''step-1'' \<mapsto> (ex_row StepStatusCanceled)
            \<lparr>sr_status := StepStatusSucceeded, sr_ended_at := Some 1002,
             sr_error := Some [], sr_cost_cents := 7, sr_tokens_prompt := 11,
             sr_tokens_completion := 13\<rparr>])"
  by (simp add: updateStepWithResult_def exec_update_def ok_result_def ex_row_def)

text \<open>
  C3, amended: the worker's result-update statement is an update by id with no condition
  on the status. When it succeeds, the row with the task's id takes the result's status,
  \<^verbatim>\<open>ended_at = now\<close>, the error, the cost and the token counts, whatever its status was
  (a \<^verbatim>\<open>canceled\<close> row with a \<^verbatim>\<open>succeeded\<close> result becomes \<^verbatim>\<open>succeeded\<close>); every other
  row is unchanged.
\<close>

theorem updateStepWithResult_unconditional:
  "updateStepWithResult None now tbl result
     = (None,
        case tbl (TaskID result) of
          None \<Rightarrow> tbl
        | Some r \<Rightarrow> tbl(TaskID result \<mapsto>
             r\<lparr>sr_status := Status result, sr_ended_at := Some now,
               sr_error := Some (Error result), sr_cost_cents := CostCents result,
               sr_tokens_prompt := TokensPrompt result,
               sr_tokens_completion := TokensCompletion result\<rparr>))
   \<and> (\<forall>i. i \<noteq> TaskID result \<longrightarrow>
         snd (updateStepWithResult None now tbl result) i = tbl i)
   \<and> (\<forall>r. tbl (TaskID result) = Some r \<longrightarrow>
         (\<exists>r'. snd (updateStepWithResult None now tbl result) (TaskID result) = Some r'
               \<and> sr_status r' = Status result))"
  by (auto simp: updateStepWithResult_def exec_update_def split: option.splits)

theorem updateStepWithResult_unconditional_witness:
  "[''step-1'' \<mapsto> ex_row StepStatusCanceled] (TaskID ok_result)
     = Some (ex_row StepStatusCanceled)
   \<and> (\<exists>r'. snd (updateStepWithResult None 1002
                   [''step-1'' \<mapsto> ex_row StepStatusCanceled] ok_result) (TaskID ok_result)
               = Some r'
            \<and> sr_status r' = Status ok_result)
   \<and> ''step-2'' \<noteq> TaskID ok_result
   \<and> snd (updateStepWithResult None 1002
            [''step-1'' \<mapsto> ex_row StepStatusCanceled, ''step-2'' \<mapsto> ex_row StepStatusCanceled]
            ok_result) ''step-2''
       = Some (ex_row StepStatusCanceled)"
proof -
  have k: "[''step-1'' \<mapsto> ex_row StepStatusCanceled] (TaskID ok_result)
             = Some (ex_row StepStatusCanceled)"
    by (simp add: ok_result_def)
  have n: "''step-2'' \<noteq> TaskID ok_result"
    by (simp add: ok_result_def)
  note a = updateStepWithResult_unconditional
    [of 1002 "[''step-1'' \<mapsto> ex_row StepStatusCanceled]" ok_result]
  note b = updateStepWithResult_unconditional
    [of 1002 "[''step-1'' \<mapsto> ex_row StepStatusCanceled,
               ''step-2'' \<mapsto> ex_row StepStatusCanceled]" ok_result]
  from a k have 1: "\<exists>r'. snd (updateStepWithResult None 1002
                   [''step-1'' \<mapsto> ex_row StepStatusCanceled] ok_result) (TaskID ok_result)
               = Some r' \<and> sr_status r' = Status ok_result"
    by blast
  from b n have "snd (updateStepWithResult None 1002
            [''step-1'' \<mapsto> ex_row StepStatusCanceled, ''step-2'' \<mapsto> ex_row StepStatusCanceled]
            ok_result) ''step-2''
       = [''step-1'' \<mapsto> ex_row StepStatusCanceled, ''step-2'' \<mapsto> ex_row StepStatusCanceled]
           ''step-2''"
    by blast
  then have 2: "snd (updateStepWithResult None 1002
            [''step-1'' \<mapsto> ex_row StepStatusCanceled, ''step-2'' \<mapsto> ex_row StepStatusCanceled]
            ok_result) ''step-2''
       = Some (ex_row StepStatusCanceled)"
    by simp
  show ?thesis using k n 1 2 by blast
qed

section \<open>The lease of a running row\<close>

text \<open>
  C4, as stated: every row in \<^verbatim>\<open>running\<close> has a worker id and a lease deadline later
  than its \<^verbatim>\<open>started_at\<close>. The row \<^verbatim>\<open>step-1\<close> in status \<^verbatim>\<open>ready\<close> with no lease
  deadline satisfies the invariant; after the worker's transition to \<^verbatim>\<open>running\<close> it is
  in \<^verbatim>\<open>running\<close> with a worker id and still no lease deadline.
\<close>

theorem running_lease_counterexample:
  "running_lease_ok (ex_row StepStatusReady)
   \<and> snd (updateStepStatus None 1001 [''step-1'' \<mapsto> ex_row StepStatusReady] ''step-1''
            StepStatusRunning ''worker-1'') ''step-1''
       = Some \<lparr>sr_status = StepStatusRunning, sr_attempt = 1,
           sr_worker_id = Some ''worker-1'', sr_lease_deadline = None,
           sr_started_at = Some 1001, sr_ended_at = None, sr_error = None,
           sr_cost_cents = 0, sr_tokens_prompt = 0, sr_tokens_completion = 0\<rparr>
   \<and> \<not> running_lease_ok
         \<lparr>sr_status = StepStatusRunning, sr_attempt = 1,
           sr_worker_id = Some ''worker-1'', sr_lease_deadline = None,
           sr_started_at = Some 1001, sr_ended_at = None, sr_error = None,
           sr_cost_cents = 0, sr_tokens_prompt = 0, sr_tokens_completion = 0\<rparr>"
  by (simp add: running_lease_ok_def updateStepStatus_def exec_update_def ex_row_def)

text \<open>
  C4, amended: every StepRun that the worker's status update has put in \<^verbatim>\<open>running\<close> has
  exactly one worker id, the id of that worker, and \<^verbatim>\<open>started_at = now\<close>. The worker
  does not write \<^verbatim>\<open>lease_deadline\<close>: the row keeps the value it had, so the lease lies
  after \<^verbatim>\<open>started_at\<close> exactly when the row already carried a lease deadline later than
  now.
\<close>

theorem updateStepStatus_running_row:
  assumes "tbl stepID = Some r"
  shows "\<exists>r'. snd (updateStepStatus None now tbl stepID StepStatusRunning workerID) stepID
                = Some r'
           \<and> sr_status r' = StepStatusRunning
           \<and> sr_worker_id r' = Some workerID
           \<and> sr_started_at r' = Some now
           \<and> sr_lease_deadline r' = sr_lease_deadline r
           \<and> (running_lease_ok r' \<longleftrightarrow> (\<exists>d. sr_lease_deadline r = Some d \<and> now < d))"
  using assms
  by (auto simp: updateStepStatus_def exec_update_def running_lease_ok_def
      split: option.splits)

theorem updateStepStatus_running_row_witness:
  "[''step-1'' \<mapsto> ex_row StepStatusReady] ''step-1'' = Some (ex_row StepStatusReady)
   \<and> (\<exists>r'. snd (updateStepStatus None 1001 [''step-1'' \<mapsto> ex_row StepStatusReady]
                   ''step-1'' StepStatusRunning ''worker-1'') ''step-1'' = Some r'
           \<and> sr_status r' = StepStatusRunning
           \<and> sr_worker_id r' = Some ''worker-1''
           \<and> sr_started_at r' = Some 1001
           \<and> sr_lease_deadline r' = None
           \<and> \<not> running_lease_ok r')"
proof -
  have k: "[''step-1'' \<mapsto> ex_row StepStatusReady] ''step-1'' = Some (ex_row StepStatusReady)"
    by simp
  have l: "sr_lease_deadline (ex_row StepStatusReady) = None"
    by (simp add: ex_row_def)
  from updateStepStatus_running_row
    [of "[''step-1'' \<mapsto> ex_row StepStatusReady]" "''step-1''" "ex_row StepStatusReady"
        1001 "''worker-1''"] k l
  show ?thesis by auto
qed

section \<open>The deadline of the per-task context\<close>

text \<open>
  C6, as stated: the context of a task has the deadline
  \<^verbatim>\<open>min(task.deadline_at, now + configured_max)\<close>. For a task whose deadline is 60 s
  after the epoch, handled at 1000 ns, and a configured maximum of 30 s, that would be
  30 s and 1000 ns; the context the worker derives has the deadline 60 s.
\<close>

theorem task_context_counterexample:
  "DeadlineAt (task1 ''Function'' 0) = 60000000000
   \<and> now_until wenv_ok = 1000 \<and> now_timeout wenv_ok = 1000
   \<and> deadline (task_context wenv_ok (task1 ''Function'' 0)) = 60000000000
   \<and> spec_task_deadline (DeadlineAt (task1 ''Function'' 0)) (now_until wenv_ok) 30000000000
       = 30000001000"
  by (simp add: task_context_def WithTimeout_def Until_def Sub_def maxDuration_def
      minDuration_def spec_task_deadline_def task1_def wenv_ok_def)

text \<open>
  C6, amended: the worker derives the per-task context with the timeout
  \<^verbatim>\<open>time.Until(task.deadline_at)\<close>, so its deadline is the instant of
  \<^verbatim>\<open>context.WithTimeout\<close> plus the saturated difference between \<^verbatim>\<open>task.deadline_at\<close>
  and the instant of \<^verbatim>\<open>time.Until\<close>. When that difference fits a duration the deadline
  is \<^verbatim>\<open>task.deadline_at\<close> plus the time that passed between the two readings of the
  clock, and \<^verbatim>\<open>task.deadline_at\<close> itself when none passed. No configured maximum task
  duration takes part.
\<close>

theorem task_context_deadline:
  "deadline (task_context env t) = now_timeout env + Sub (DeadlineAt t) (now_until env)
   \<and> (minDuration \<le> DeadlineAt t - now_until env
        \<and> DeadlineAt t - now_until env \<le> maxDuration \<longrightarrow>
      deadline (task_context env t) = DeadlineAt t + (now_timeout env - now_until env))
   \<and> (minDuration \<le> DeadlineAt t - now_until env
        \<and> DeadlineAt t - now_until env \<le> maxDuration
        \<and> now_timeout env = now_until env \<longrightarrow>
      deadline (task_context env t) = DeadlineAt t)"
  by (simp add: task_context_def WithTimeout_def Until_def Sub_def)

theorem task_context_deadline_witness:
  "minDuration \<le> DeadlineAt (task1 ''Function'' 0) - now_until wenv_ok
   \<and> DeadlineAt (task1 ''Function'' 0) - now_until wenv_ok \<le> maxDuration
   \<and> now_timeout wenv_ok = now_until wenv_ok
   \<and> deadline (task_context wenv_ok (task1 ''Function'' 0)) = 60000000000"
proof -
  have 1: "minDuration \<le> DeadlineAt (task1 ''Function'' 0) - now_until wenv_ok"
    and 2: "DeadlineAt (task1 ''Function'' 0) - now_until wenv_ok \<le> maxDuration"
    and 3: "now_timeout wenv_ok = now_until wenv_ok"
    by (simp_all add: task1_def wenv_ok_def minDuration_def maxDuration_def)
  from task_context_deadline [of wenv_ok "task1 ''Function'' 0"] 1 2 3
  have "deadline (task_context wenv_ok (task1 ''Function'' 0))
          = DeadlineAt (task1 ''Function'' 0)"
    by blast
  then show ?thesis using 1 2 3 by (simp add: task1_def)
qed

end
